theory Spec2Isabelle
  imports Main "HOL-Library.Sublist"
begin

section \<open>Python library operations used by autoscope.py\<close>

text \<open>
  The program is a Python script that drives external tools and reads and writes files of
  one working directory. The operations of the Python library it calls are modelled first:
  strings, the regular expression of the endpoint search, and a file system of regular
  files and directories. A character is a code point below 256, and the character classes
  below (\<open>str.isspace\<close>, \<open>\w\<close>) are Python's on these code points; paths are POSIX
  paths.
\<close>

subsection \<open>Strings\<close>

text \<open>\<open>c.isspace()\<close>, the whitespace of \<open>strip\<close> and \<open>split\<close>.\<close>

definition whitespace :: "char list" where
  "whitespace = [CHR 0x09, CHR 0x0A, CHR 0x0B, CHR 0x0C, CHR 0x0D,
                 CHR 0x1C, CHR 0x1D, CHR 0x1E, CHR 0x1F, CHR 0x20, CHR 0x85, CHR 0xA0]"

definition isspace :: "char \<Rightarrow> bool" where
  "isspace c = (c \<in> set whitespace)"

text \<open>\<open>s.strip()\<close>\<close>

definition str_strip :: "string \<Rightarrow> string" where
  "str_strip s = rev (dropWhile isspace (rev (dropWhile isspace s)))"

text \<open>\<open>s.endswith(suf)\<close>\<close>

definition str_endswith :: "string \<Rightarrow> string \<Rightarrow> bool" where
  "str_endswith s suf = (length suf \<le> length s \<and> drop (length s - length suf) s = suf)"

text \<open>\<open>s.split()\<close>: the maximal runs of characters that are not whitespace.\<close>

fun split_acc :: "string \<Rightarrow> string \<Rightarrow> string list" where
  "split_acc cur [] = (if cur = [] then [] else [cur])"
| "split_acc cur (c # cs) =
     (if isspace c then (if cur = [] then split_acc [] cs else cur # split_acc [] cs)
      else split_acc (cur @ [c]) cs)"

definition str_split :: "string \<Rightarrow> string list" where
  "str_split s = split_acc [] s"

text \<open>\<open>for line in f\<close>: the lines of a text, each with its newline (the last may lack it).\<close>

fun lines_acc :: "string \<Rightarrow> string \<Rightarrow> string list" where
  "lines_acc cur [] = (if cur = [] then [] else [cur])"
| "lines_acc cur (c # cs) =
     (if c = CHR 0x0A then (cur @ [c]) # lines_acc [] cs else lines_acc (cur @ [c]) cs)"

definition file_lines :: "string \<Rightarrow> string list" where
  "file_lines s = lines_acc [] s"

text \<open>\<open>sep.join(xs)\<close>\<close>

fun str_join :: "string \<Rightarrow> string list \<Rightarrow> string" where
  "str_join sep [] = []"
| "str_join sep [x] = x"
| "str_join sep (x # y # ys) = x @ sep @ str_join sep (y # ys)"

text \<open>\<open>s.replace('.', '_')\<close>\<close>

definition replace_dots :: "string \<Rightarrow> string" where
  "replace_dots s = map (\<lambda>c. if c = CHR ''.'' then CHR ''_'' else c) s"

text \<open>\<open>str(n)\<close> for a natural number, as an f-string formats \<open>len(endpoints)\<close>.\<close>

fun str_nat :: "nat \<Rightarrow> string" where
  "str_nat n =
     (if n < 10 then [''0123456789'' ! n]
      else str_nat (n div 10) @ [''0123456789'' ! (n mod 10)])"

declare str_nat.simps [simp del]

subsection \<open>The endpoint pattern\<close>

text \<open>
  \<open>re.findall(r'[/\w-]+\?\w+=', s)\<close>. Neither \<open>?\<close> nor \<open>=\<close> is a character of the class
  before it, so a match that starts at a position is the maximal run of \<open>[/\w-]\<close>, a
  \<open>?\<close>, the maximal run of \<open>\w\<close> and a \<open>=\<close>: backtracking to a shorter run finds a
  character of the class where the pattern needs \<open>?\<close> or \<open>=\<close>. \<open>findall\<close> takes the
  leftmost match, continues after it, and moves one character on where none starts.
\<close>

text \<open>
  \<open>\w\<close> on a \<open>str\<close>: the underscore and the alphanumeric characters, which below 256
  are the ASCII digits and letters, the ordinal indicators, the micro sign, the superscript
  digits, the three fractions, and the accented letters.
\<close>

definition isword :: "char \<Rightarrow> bool" where
  "isword c =
     (let n = (of_char c :: nat)
      in (48 \<le> n \<and> n \<le> 57) \<or> (65 \<le> n \<and> n \<le> 90) \<or> n = 95 \<or> (97 \<le> n \<and> n \<le> 122)
         \<or> n = 170 \<or> n = 178 \<or> n = 179 \<or> n = 181 \<or> n = 185 \<or> n = 186
         \<or> (188 \<le> n \<and> n \<le> 190) \<or> (192 \<le> n \<and> n \<le> 214) \<or> (216 \<le> n \<and> n \<le> 246)
         \<or> 248 \<le> n)"

definition ispathchar :: "char \<Rightarrow> bool" where
  "ispathchar c = (c = CHR ''/'' \<or> isword c \<or> c = CHR ''-'')"

definition match_endpoint :: "string \<Rightarrow> (string \<times> string) option" where
  "match_endpoint s =
     (let r1 = takeWhile ispathchar s; s1 = dropWhile ispathchar s
      in if r1 = [] then None
         else (case s1 of
                 [] \<Rightarrow> None
               | c # s2 \<Rightarrow>
                   if c \<noteq> CHR ''?'' then None
                   else (let r2 = takeWhile isword s2; s3 = dropWhile isword s2
                         in if r2 = [] then None
                            else (case s3 of
                                    [] \<Rightarrow> None
                                  | d # s4 \<Rightarrow>
                                      if d \<noteq> CHR ''='' then None
                                      else Some (r1 @ [c] @ r2 @ [d], s4)))))"

lemma match_endpoint_shorter:
  assumes "match_endpoint s = Some (m, r)"
  shows "length r < length s"
proof -
  have a: "length (dropWhile P xs) \<le> length xs" for P and xs :: string
    by (induction xs) auto
  from assms obtain c s2 d where
    s1: "dropWhile ispathchar s = c # s2" and s3: "dropWhile isword s2 = d # r"
    by (auto simp: match_endpoint_def Let_def split: list.splits if_splits)
  have "length r < length (dropWhile isword s2)" using s3 by simp
  also have "\<dots> \<le> length s2" by (rule a)
  also have "\<dots> < length (dropWhile ispathchar s)" using s1 by simp
  also have "\<dots> \<le> length s" by (rule a)
  finally show ?thesis .
qed

function findall :: "string \<Rightarrow> string list" where
  "findall s =
     (if s = [] then []
      else (case match_endpoint s of
              Some (m, r) \<Rightarrow> m # findall r
            | None \<Rightarrow> findall (tl s)))"
  by pat_completeness auto
termination
  by (relation "measure length") (auto dest: match_endpoint_shorter)

declare findall.simps [simp del]

subsection \<open>Paths\<close>

text \<open>
  \<open>pathlib\<close> on POSIX reads a string as a root (none, \<open>/\<close>, or \<open>//\<close> for exactly two
  leading slashes) and the components between slashes that are neither empty nor \<open>.\<close>;
  \<open>..\<close> is kept. \<open>Path(d) / n\<close> is \<open>n\<close> alone when \<open>n\<close> has a root, and the path of
  both component lists otherwise; \<open>str\<close> joins the components, and the empty path is
  \<open>.\<close>. A path object is held here by its \<open>str\<close>, which reads back as the same path.
\<close>

fun split_sep :: "string \<Rightarrow> string \<Rightarrow> string list" where
  "split_sep cur [] = [cur]"
| "split_sep cur (c # cs) =
     (if c = CHR ''/'' then cur # split_sep [] cs else split_sep (cur @ [c]) cs)"

definition path_root :: "string \<Rightarrow> string" where
  "path_root s =
     (if take 2 s = ''//'' \<and> take 3 s \<noteq> ''///'' then ''//''
      else if take 1 s = ''/'' then ''/'' else [])"

definition path_parts :: "string \<Rightarrow> string list" where
  "path_parts s = filter (\<lambda>x. x \<noteq> [] \<and> x \<noteq> ''.'') (split_sep [] s)"

definition path_str :: "string \<Rightarrow> string list \<Rightarrow> string" where
  "path_str root parts =
     (if root = [] \<and> parts = [] then ''.'' else root @ str_join ''/'' parts)"

text \<open>\<open>str(Path(d))\<close>\<close>

definition path_norm :: "string \<Rightarrow> string" where
  "path_norm d = path_str (path_root d) (path_parts d)"

text \<open>\<open>str(Path(d) / n)\<close>\<close>

definition path_join :: "string \<Rightarrow> string \<Rightarrow> string" where
  "path_join d n =
     (if path_root n \<noteq> [] then path_norm n
      else path_str (path_root d) (path_parts d @ path_parts n))"

text \<open>\<open>os.path.dirname\<close> and \<open>os.path.basename\<close>\<close>

definition all_slashes :: "string \<Rightarrow> bool" where
  "all_slashes s = list_all (\<lambda>c. c = CHR ''/'') s"

definition dirname :: "string \<Rightarrow> string" where
  "dirname p =
     (let head = rev (dropWhile (\<lambda>c. c \<noteq> CHR ''/'') (rev p))
      in if all_slashes head then head else rev (dropWhile (\<lambda>c. c = CHR ''/'') (rev head)))"

definition basename :: "string \<Rightarrow> string" where
  "basename p = rev (takeWhile (\<lambda>c. c \<noteq> CHR ''/'') (rev p))"

text \<open>\<open>Path.stem\<close>: the name without its last suffix.\<close>

definition rfind_dot :: "string \<Rightarrow> nat option" where
  "rfind_dot n =
     (if CHR ''.'' \<in> set n
      then Some (length n - 1 - length (takeWhile (\<lambda>c. c \<noteq> CHR ''.'') (rev n)))
      else None)"

definition stem :: "string \<Rightarrow> string" where
  "stem n =
     (case rfind_dot n of
        None \<Rightarrow> n
      | Some i \<Rightarrow> if 0 < i \<and> i < length n - 1 then take i n else n)"

subsection \<open>Files and directories\<close>

text \<open>
  The file system maps a path to a regular file with its bytes, or to a directory; the list
  order is the order in which a directory is listed (Python leaves it to the platform).
  The current directory and the root exist and are not listed; symbolic links and \<open>..\<close>
  are not resolved, so a path is its own key. The exceptions are the \<open>OSError\<close>s these
  operations raise on Linux when a directory stands where a file is expected, a file where
  a directory is expected, or a directory on the way is missing, and the
  \<open>UnicodeDecodeError\<close> of text mode. Permissions and a full disk are not modelled.
\<close>

datatype node = File string | Dir

type_synonym filesystem = "(string \<times> node) list"

datatype exn =
    FileNotFoundError string
  | IsADirectoryError string
  | FileExistsError string
  | NotADirectoryError string
  | UnicodeDecodeError string
  | OtherException string

text \<open>\<open>str(e)\<close>; a \<open>UnicodeDecodeError\<close> carries its message.\<close>

fun exn_str :: "exn \<Rightarrow> string" where
  "exn_str (FileNotFoundError p) =
     ''[Errno 2] No such file or directory: '' @ [CHR 0x27] @ p @ [CHR 0x27]"
| "exn_str (IsADirectoryError p) =
     ''[Errno 21] Is a directory: '' @ [CHR 0x27] @ p @ [CHR 0x27]"
| "exn_str (FileExistsError p) =
     ''[Errno 17] File exists: '' @ [CHR 0x27] @ p @ [CHR 0x27]"
| "exn_str (NotADirectoryError p) =
     ''[Errno 20] Not a directory: '' @ [CHR 0x27] @ p @ [CHR 0x27]"
| "exn_str (UnicodeDecodeError msg) = msg"
| "exn_str (OtherException msg) = msg"

text \<open>\<open>os.path.exists(p)\<close>\<close>

definition path_exists :: "filesystem \<Rightarrow> string \<Rightarrow> bool" where
  "path_exists fs p = (map_of fs p \<noteq> None)"

text \<open>
  The directories on the way to a path, outermost first and the path itself last; the
  current directory and the root are left out.
\<close>

fun ancestors_acc :: "string \<Rightarrow> string \<Rightarrow> string list" where
  "ancestors_acc pre [] = [pre]"
| "ancestors_acc pre (c # cs) =
     (if c = CHR ''/'' \<and> pre \<noteq> [] then pre # ancestors_acc (pre @ [c]) cs
      else ancestors_acc (pre @ [c]) cs)"

definition ancestors :: "string \<Rightarrow> string list" where
  "ancestors p = filter (\<lambda>q. q \<noteq> ''.'' \<and> \<not> all_slashes q) (ancestors_acc [] p)"

definition is_dir :: "filesystem \<Rightarrow> string \<Rightarrow> bool" where
  "is_dir fs p = (p = ''.'' \<or> all_slashes p \<or> map_of fs p = Some Dir)"

text \<open>
  What the system reports for a path it cannot reach: \<open>ENOTDIR\<close> when a regular file is
  on the way, \<open>ENOENT\<close> otherwise.
\<close>

definition missing_error :: "filesystem \<Rightarrow> string \<Rightarrow> exn" where
  "missing_error fs p =
     (if list_ex (\<lambda>q. case map_of fs q of Some (File b) \<Rightarrow> True | _ \<Rightarrow> False)
           (ancestors (dirname p))
      then NotADirectoryError p else FileNotFoundError p)"

text \<open>A new entry is listed last; an entry that is replaced keeps its place.\<close>

fun fs_put :: "string \<Rightarrow> node \<Rightarrow> filesystem \<Rightarrow> filesystem" where
  "fs_put p v [] = [(p, v)]"
| "fs_put p v ((q, w) # fs) = (if q = p then (p, v) # fs else (q, w) # fs_put p v fs)"

text \<open>\<open>open(p, 'r')\<close>: the bytes that text mode will decode.\<close>

definition open_r :: "filesystem \<Rightarrow> string \<Rightarrow> exn + string" where
  "open_r fs p =
     (case map_of fs p of
        None \<Rightarrow> Inl (missing_error fs p)
      | Some Dir \<Rightarrow> Inl (IsADirectoryError p)
      | Some (File b) \<Rightarrow> Inr b)"

text \<open>
  \<open>open(p, 'w')\<close>, the writes and the close: the file holds \<open>text\<close> afterwards (on POSIX
  a newline is written as it is).
\<close>

definition open_w :: "filesystem \<Rightarrow> string \<Rightarrow> string \<Rightarrow> exn + filesystem" where
  "open_w fs p text =
     (case map_of fs p of
        Some Dir \<Rightarrow> Inl (IsADirectoryError p)
      | _ \<Rightarrow> if is_dir fs (dirname p) then Inr (fs_put p (File text) fs)
             else Inl (missing_error fs p))"

text \<open>
  \<open>Path(p).mkdir(parents=True, exist_ok=True)\<close> and \<open>os.makedirs(p, exist_ok=True)\<close>:
  the path and every missing directory on the way become directories. A regular file at
  the path raises \<open>FileExistsError\<close>; a regular file on the way raises
  \<open>NotADirectoryError\<close>, which \<open>pathlib\<close> raises for the whole path and \<open>os.makedirs\<close>
  for the first directory it could not create.
\<close>

fun mkdir_chain :: "bool \<Rightarrow> string \<Rightarrow> filesystem \<Rightarrow> string list \<Rightarrow> exn + filesystem" where
  "mkdir_chain whole p fs [] = Inr fs"
| "mkdir_chain whole p fs (q # qs) =
     (case map_of fs q of
        Some (File b) \<Rightarrow>
          Inl (if qs = [] then FileExistsError q
               else NotADirectoryError (if whole then p else hd qs))
      | Some Dir \<Rightarrow> mkdir_chain whole p fs qs
      | None \<Rightarrow> mkdir_chain whole p (fs_put q Dir fs) qs)"

definition path_mkdir :: "filesystem \<Rightarrow> string \<Rightarrow> exn + filesystem" where
  "path_mkdir fs p = mkdir_chain True p fs (ancestors p)"

definition makedirs :: "filesystem \<Rightarrow> string \<Rightarrow> exn + filesystem" where
  "makedirs fs p = mkdir_chain False p fs (ancestors p)"

text \<open>
  \<open>Path(d).glob('*.txt')\<close>: the entries of the directory \<open>d\<close> whose name ends in
  \<open>.txt\<close>, each once, as the paths \<open>d / name\<close>.
\<close>

definition glob_txt :: "filesystem \<Rightarrow> string \<Rightarrow> string list" where
  "glob_txt fs d =
     (if is_dir fs (path_norm d)
      then filter (\<lambda>p. basename p \<noteq> [] \<and> path_join d (basename p) = p
                        \<and> str_endswith (basename p) ''.txt'')
             (remdups (map fst fs))
      else [])"

subsection \<open>Text mode\<close>

text \<open>
  A file opened with \<open>open(p, 'r')\<close> is decoded with the locale's encoding and read with
  universal newlines: \<open>CR LF\<close> and a lone \<open>CR\<close> arrive as \<open>LF\<close>. Bytes that decode
  are read as the characters of the same numbers, as ASCII text is in every encoding that
  extends ASCII and as every byte is in Latin-1. That the decoder rejects the bytes of a
  file is a parameter of the environment, and so is what the iteration over the lines has
  yielded by then.
\<close>

fun universal_newlines :: "string \<Rightarrow> string" where
  "universal_newlines [] = []"
| "universal_newlines [c] = [if c = CHR 0x0D then CHR 0x0A else c]"
| "universal_newlines (c # d # cs) =
     (if c = CHR 0x0D \<and> d = CHR 0x0A then CHR 0x0A # universal_newlines cs
      else if c = CHR 0x0D then CHR 0x0A # universal_newlines (d # cs)
      else c # universal_newlines (d # cs))"

subsection \<open>The environment and the state of a run\<close>

text \<open>
  What the program cannot decide is a parameter: which tools \<open>shutil.which\<close> finds; what
  \<open>subprocess.run\<close> does for a command line, a timeout argument and a file system (how the
  call ends, and the file system the tool leaves); the elapsed time as the success line
  formats it; the size the platform reports for a directory; and the decoding of a file's
  bytes: \<open>None\<close> when they decode, or the lines an iteration yields before the
  \<open>UnicodeDecodeError\<close> and the message of that error.
\<close>

datatype proc_outcome =
    Completed int string string
  | TimeoutExpired
  | Raised string

record env =
  which :: "string \<Rightarrow> bool"
  run :: "string \<Rightarrow> nat option \<Rightarrow> filesystem \<Rightarrow> proc_outcome \<times> filesystem"
  elapsed :: "string \<Rightarrow> string"
  dirsize :: nat
  decode_error :: "string \<Rightarrow> (string list \<times> string) option"

text \<open>\<open>f.read()\<close> on the bytes of a file opened in text mode.\<close>

definition read_text :: "env \<Rightarrow> string \<Rightarrow> exn + string" where
  "read_text e b =
     (case decode_error e b of
        None \<Rightarrow> Inr (universal_newlines b)
      | Some (ls, msg) \<Rightarrow> Inl (UnicodeDecodeError msg))"

text \<open>
  \<open>for line in f\<close>: the lines that are yielded, and the exception that ends the
  iteration early.
\<close>

definition read_lines :: "env \<Rightarrow> string \<Rightarrow> string list \<times> exn option" where
  "read_lines e b =
     (case decode_error e b of
        None \<Rightarrow> (file_lines (universal_newlines b), None)
      | Some (ls, msg) \<Rightarrow> (ls, Some (UnicodeDecodeError msg)))"

text \<open>
  The state is the file system, the lines printed so far, and the calls of
  \<open>subprocess.run\<close> so far, each with its command line and its \<open>timeout\<close> argument.
\<close>

record state =
  disk :: filesystem
  out :: "string list"
  procs :: "(string \<times> nat option) list"

definition py_print :: "string \<Rightarrow> state \<Rightarrow> state" where
  "py_print line st = st\<lparr>out := out st @ [line]\<rparr>"

definition subprocess_run :: "env \<Rightarrow> string \<Rightarrow> nat option \<Rightarrow> state \<Rightarrow> proc_outcome \<times> state" where
  "subprocess_run e cmd t st =
     (let (res, fs1) = run e cmd t (disk st)
      in (res, st\<lparr>disk := fs1, procs := procs st @ [(cmd, t)]\<rparr>))"

text \<open>\<open>os.path.getsize(p)\<close>\<close>

definition getsize :: "env \<Rightarrow> filesystem \<Rightarrow> string \<Rightarrow> exn + nat" where
  "getsize e fs p =
     (case map_of fs p of
        None \<Rightarrow> Inl (missing_error fs p)
      | Some Dir \<Rightarrow> Inr (dirsize e)
      | Some (File b) \<Rightarrow> Inr (length b))"

section \<open>The modules\<close>

subsection \<open>BaseModule\<close>

text \<open>
  The configuration is a Python dictionary; \<open>config.get(k)\<close> is read for its truth value
  and \<open>config.get('timeout', 300)\<close> for a number (a Python \<open>bool\<close> is the number 0 or 1).
\<close>

datatype cfg_val = B bool | N nat

type_synonym config_dict = "string \<rightharpoonup> cfg_val"

definition truthy :: "cfg_val option \<Rightarrow> bool" where
  "truthy v = (case v of None \<Rightarrow> False | Some (B b) \<Rightarrow> b | Some (N n) \<Rightarrow> n \<noteq> 0)"

definition get_timeout :: "config_dict \<Rightarrow> nat" where
  "get_timeout c =
     (case c ''timeout'' of None \<Rightarrow> 300 | Some (N n) \<Rightarrow> n | Some (B b) \<Rightarrow> (if b then 1 else 0))"

datatype module_class =
    SubdomainModule
  | PortsModule
  | HttpProbeModule
  | JsDiscoveryModule
  | DirBruteforceModule
  | ParamDiscoveryModule
  | ScreenshotModule

fun name :: "module_class \<Rightarrow> string" where
  "name SubdomainModule = ''subdomain''"
| "name PortsModule = ''ports''"
| "name HttpProbeModule = ''http_probe''"
| "name JsDiscoveryModule = ''js_discovery''"
| "name DirBruteforceModule = ''dir_bruteforce''"
| "name ParamDiscoveryModule = ''param_discovery''"
| "name ScreenshotModule = ''screenshot''"

text \<open>The class attribute \<open>output_file\<close>.\<close>

fun output_file :: "module_class \<Rightarrow> string" where
  "output_file SubdomainModule = ''subs.txt''"
| "output_file PortsModule = ''ports.txt''"
| "output_file HttpProbeModule = ''httpx.txt''"
| "output_file JsDiscoveryModule = ''endpoints.txt''"
| "output_file DirBruteforceModule = ''dirs.txt''"
| "output_file ParamDiscoveryModule = ''params.txt''"
| "output_file ScreenshotModule = ''screenshots/''"

record module =
  cls :: module_class
  target :: string
  output_dir :: string
  config :: config_dict

text \<open>\<open>__init__\<close> turns \<open>output_dir\<close> into a path and creates the directory.\<close>

definition init_module ::
  "module_class \<Rightarrow> string \<Rightarrow> string \<Rightarrow> config_dict \<Rightarrow> state \<Rightarrow> (exn + module) \<times> state" where
  "init_module c tgt dir cfg st =
     (case path_mkdir (disk st) (path_norm dir) of
        Inl ex \<Rightarrow> (Inl ex, st)
      | Inr fs1 \<Rightarrow>
          (Inr \<lparr>cls = c, target = tgt, output_dir = path_norm dir, config = cfg\<rparr>,
           st\<lparr>disk := fs1\<rparr>))"

definition check_tool :: "env \<Rightarrow> string \<Rightarrow> state \<Rightarrow> bool \<times> state" where
  "check_tool e tool st =
     (if \<not> which e tool
      then (False, py_print (''[ERROR] '' @ tool @ '' not found. Please install it and add to PATH.'') st)
      else (True, st))"

text \<open>
  \<open>run_cmd\<close>: the three handlers of the source are the three ways the \<open>try\<close> block ends
  early; \<open>except Exception\<close> also catches what \<open>open\<close> raises.
\<close>

definition run_cmd :: "env \<Rightarrow> module \<Rightarrow> string \<Rightarrow> string \<Rightarrow> state \<Rightarrow> bool \<times> state" where
  "run_cmd e m cmd outfile_path st =
     (let (res, st1) = subprocess_run e cmd (Some (get_timeout (config m))) st
      in case res of
           TimeoutExpired \<Rightarrow> (False, py_print (''[ERROR] Timeout in '' @ name (cls m)) st1)
         | Raised msg \<Rightarrow>
             (False, py_print (''[ERROR] Failure in '' @ name (cls m) @ '': '' @ msg) st1)
         | Completed returncode stdout stderr \<Rightarrow>
             if returncode \<noteq> 0
             then (False,
                   py_print (''[ERROR] in '' @ name (cls m) @ '': '' @ str_strip stderr) st1)
             else (case open_w (disk st1) outfile_path stdout of
                     Inl ex \<Rightarrow>
                       (False,
                        py_print (''[ERROR] Failure in '' @ name (cls m) @ '': '' @ exn_str ex) st1)
                   | Inr fs2 \<Rightarrow>
                       (True,
                        py_print (''[SUCCESS] Completed '' @ name (cls m) @ '' in '' @ elapsed e cmd
                                  @ ''s. Output: '' @ outfile_path)
                          (st1\<lparr>disk := fs2\<rparr>))))"

subsection \<open>The seven modules\<close>

definition Subdomain_execute :: "env \<Rightarrow> module \<Rightarrow> state \<Rightarrow> (exn + bool) \<times> state" where
  "Subdomain_execute e m st =
     (let (ok, st1) = check_tool e ''subfinder'' st
      in if \<not> ok
         then (Inr False,
               py_print ''[ERROR] Install subfinder via: go install github.com/projectdiscovery/subfinder/v2/cmd/subfinder@latest'' st1)
         else (let outfile = path_join (output_dir m) (output_file SubdomainModule);
                   cmd = ''subfinder -d '' @ target m @ '' -silent -o '' @ outfile;
                   cmd1 = (if truthy (config m ''deep'') then cmd @ '' -all'' else cmd);
                   (r, st2) = run_cmd e m cmd1 outfile st1
               in (Inr r, st2)))"

definition port_range :: "config_dict \<Rightarrow> string" where
  "port_range c = (if truthy (c ''fast'') then ''1-1000'' else ''1-65535'')"

definition Ports_execute :: "env \<Rightarrow> module \<Rightarrow> state \<Rightarrow> (exn + bool) \<times> state" where
  "Ports_execute e m st =
     (let (ok, st1) = check_tool e ''naabu'' st
      in if \<not> ok
         then (Inr False,
               py_print ''[ERROR] Install naabu via: go install github.com/projectdiscovery/naabu/v2/cmd/naabu@latest'' st1)
         else (let outfile = path_join (output_dir m) (output_file PortsModule);
                   cmd = ''naabu -host '' @ target m @ '' -p '' @ port_range (config m)
                         @ '' -silent -o '' @ outfile;
                   (r, st2) = run_cmd e m cmd outfile st1
               in (Inr r, st2)))"

text \<open>
  The \<open>try\<close> block of the HTTP probe: both files are opened, then the second word of
  each line that the iteration yields is written to \<open>tech.txt\<close>. When the iteration
  raises, \<open>tech.txt\<close> holds what was written until then.
\<close>

definition tech_text :: "string list \<Rightarrow> string" where
  "tech_text lines =
     concat (map (\<lambda>line. let parts = str_split line
                          in if length parts > 1 then parts ! 1 @ ''\<newline>'' else [])
               lines)"

definition tech_extraction ::
  "env \<Rightarrow> string \<Rightarrow> string \<Rightarrow> filesystem \<Rightarrow> (exn + unit) \<times> filesystem" where
  "tech_extraction e outfile tech_file fs =
     (case open_r fs outfile of
        Inl ex \<Rightarrow> (Inl ex, fs)
      | Inr b \<Rightarrow>
          (case open_w fs tech_file [] of
             Inl ex \<Rightarrow> (Inl ex, fs)
           | Inr fs1 \<Rightarrow>
               (let (lines, stop) = read_lines e b;
                    fs2 = fs_put tech_file (File (tech_text lines)) fs1
                in case stop of
                     None \<Rightarrow> (Inr (), fs2)
                   | Some ex \<Rightarrow> (Inl ex, fs2))))"

definition HttpProbe_execute :: "env \<Rightarrow> module \<Rightarrow> state \<Rightarrow> (exn + bool) \<times> state" where
  "HttpProbe_execute e m st =
     (let (ok, st1) = check_tool e ''httpx'' st
      in if \<not> ok
         then (Inr False,
               py_print ''[ERROR] Install httpx via: go install github.com/projectdiscovery/httpx/cmd/httpx@latest'' st1)
         else (let outfile = path_join (output_dir m) (output_file HttpProbeModule);
                   subs_file = path_join (output_dir m) ''subs.txt''
               in if \<not> path_exists (disk st1) subs_file
                  then (Inr False, py_print ''[INFO] Skipping HTTP probe: subs.txt not found'' st1)
                  else (let cmd = ''httpx -l '' @ subs_file @ '' -silent -o '' @ outfile
                                  @ '' -tech-detect'';
                            (r, st2) = run_cmd e m cmd outfile st1
                        in if \<not> r then (Inr False, st2)
                           else (let tech_file = path_join (output_dir m) ''tech.txt''
                                 in case tech_extraction e outfile tech_file (disk st2) of
                                      (Inr u, fs3) \<Rightarrow>
                                        (Inr True,
                                         py_print (''[SUCCESS] Tech detection saved to '' @ tech_file)
                                           (st2\<lparr>disk := fs3\<rparr>))
                                    | (Inl ex, fs3) \<Rightarrow>
                                        (Inr False,
                                         py_print (''[ERROR] Tech extraction failed: '' @ exn_str ex)
                                           (st2\<lparr>disk := fs3\<rparr>))))))"

text \<open>
  The loop of the endpoint discovery: one \<open>subprocess.run\<close> per URL, without a
  \<open>timeout\<close> argument; the bare \<open>except\<close> drops whatever the call raises.
\<close>

fun fetch_all :: "env \<Rightarrow> string list \<Rightarrow> string list \<Rightarrow> state \<Rightarrow> string list \<times> state" where
  "fetch_all e [] endpoints st = (endpoints, st)"
| "fetch_all e (url # urls) endpoints st =
     (let (res, st1) = subprocess_run e (''curl -s '' @ url) None st
      in case res of
           Completed returncode stdout stderr \<Rightarrow> fetch_all e urls (endpoints @ findall stdout) st1
         | TimeoutExpired \<Rightarrow> fetch_all e urls endpoints st1
         | Raised msg \<Rightarrow> fetch_all e urls endpoints st1)"

definition js_urls :: "string list \<Rightarrow> string list" where
  "js_urls lines =
     map str_strip (filter (\<lambda>line. str_endswith (str_strip line) ''.js'') lines)"

definition JsDiscovery_execute :: "env \<Rightarrow> module \<Rightarrow> state \<Rightarrow> (exn + bool) \<times> state" where
  "JsDiscovery_execute e m st =
     (let (ok, st1) = check_tool e ''curl'' st
      in if \<not> ok
         then (Inr False,
               py_print ''[ERROR] curl not found. Install curl for Windows or use native requests.'' st1)
         else (let outfile = path_join (output_dir m) (output_file JsDiscoveryModule);
                   httpx_file = path_join (output_dir m) ''httpx.txt''
               in if \<not> path_exists (disk st1) httpx_file
                  then (Inr False, py_print ''[INFO] Skipping JS discovery: httpx.txt not found'' st1)
                  else (case open_r (disk st1) httpx_file of
                          Inl ex \<Rightarrow> (Inl ex, st1)
                        | Inr b \<Rightarrow>
                            (case read_lines e b of
                               (lines, Some ex) \<Rightarrow> (Inl ex, st1)
                             | (lines, None) \<Rightarrow>
                                 (let (endpoints, st2) = fetch_all e (js_urls lines) [] st1
                                  in case open_w (disk st2) outfile
                                            (str_join ''\<newline>'' (remdups endpoints)) of
                                       Inl ex \<Rightarrow> (Inl ex, st2)
                                     | Inr fs3 \<Rightarrow>
                                         (Inr (endpoints \<noteq> []),
                                          py_print (''[SUCCESS] Found ''
                                                    @ str_nat (length endpoints)
                                                    @ '' potential endpoints'')
                                            (st2\<lparr>disk := fs3\<rparr>)))))))"

definition wordlist :: string where
  "wordlist = ''C:'' @ [CHR 0x5C] @ ''Users'' @ [CHR 0x5C] @ ''aayus'' @ [CHR 0x5C]
              @ ''Downloads'' @ [CHR 0x5C] @ ''common.txt''"

definition DirBruteforce_execute :: "env \<Rightarrow> module \<Rightarrow> state \<Rightarrow> (exn + bool) \<times> state" where
  "DirBruteforce_execute e m st =
     (let (ok, st1) = check_tool e ''ffuf'' st
      in if \<not> ok
         then (Inr False,
               py_print ''[ERROR] Install ffuf via: go install github.com/ffuf/ffuf/v2@latest'' st1)
         else (let outfile = path_join (output_dir m) (output_file DirBruteforceModule)
               in if \<not> path_exists (disk st1) wordlist
                  then (Inr False,
                        py_print (''[ERROR] Wordlist not found at '' @ wordlist
                                  @ ''. Download one and update the path.'') st1)
                  else (let cmd = ''ffuf -u https://'' @ target m @ ''/FUZZ -w '' @ wordlist
                                  @ '' -mc 200,301 -o '' @ outfile @ '' -of csv'';
                            (r, st2) = run_cmd e m cmd outfile st1
                        in (Inr r, st2))))"

definition ParamDiscovery_execute :: "env \<Rightarrow> module \<Rightarrow> state \<Rightarrow> (exn + bool) \<times> state" where
  "ParamDiscovery_execute e m st =
     (let (ok, st1) = check_tool e ''arjun'' st
      in if \<not> ok
         then (Inr False, py_print ''[ERROR] Install arjun via: pip install arjun'' st1)
         else (let outfile = path_join (output_dir m) (output_file ParamDiscoveryModule);
                   cmd = ''arjun -u https://'' @ target m @ '' --stable -oT '' @ outfile;
                   (r, st2) = run_cmd e m cmd outfile st1
               in (Inr r, st2)))"

definition Screenshot_execute :: "env \<Rightarrow> module \<Rightarrow> state \<Rightarrow> (exn + bool) \<times> state" where
  "Screenshot_execute e m st =
     (let (ok, st1) = check_tool e ''gowitness'' st
      in if \<not> ok
         then (Inr False,
               py_print ''[ERROR] Install gowitness via: go install github.com/sensepost/gowitness@latest'' st1)
         else (let out_dir = path_join (output_dir m) (output_file ScreenshotModule)
               in case makedirs (disk st1) out_dir of
                    Inl ex \<Rightarrow> (Inl ex, st1)
                  | Inr fs2 \<Rightarrow>
                      (let st2 = st1\<lparr>disk := fs2\<rparr>;
                           httpx_file = path_join (output_dir m) ''httpx.txt''
                       in if \<not> path_exists (disk st2) httpx_file
                          then (Inr False,
                                py_print ''[INFO] Skipping screenshots: httpx.txt not found'' st2)
                          else (let cmd = ''gowitness file -f '' @ httpx_file @ '' -P '' @ out_dir
                                          @ '' --headless'';
                                    (r, st3) = run_cmd e m cmd (out_dir @ ''/report.html'') st2
                                in (Inr r, st3)))))"

text \<open>\<open>module.execute()\<close>: the method of the module's class.\<close>

definition execute :: "env \<Rightarrow> module \<Rightarrow> state \<Rightarrow> (exn + bool) \<times> state" where
  "execute e m st =
     (case cls m of
        SubdomainModule \<Rightarrow> Subdomain_execute e m st
      | PortsModule \<Rightarrow> Ports_execute e m st
      | HttpProbeModule \<Rightarrow> HttpProbe_execute e m st
      | JsDiscoveryModule \<Rightarrow> JsDiscovery_execute e m st
      | DirBruteforceModule \<Rightarrow> DirBruteforce_execute e m st
      | ParamDiscoveryModule \<Rightarrow> ParamDiscovery_execute e m st
      | ScreenshotModule \<Rightarrow> Screenshot_execute e m st)"

section \<open>The report and the pipeline\<close>

text \<open>
  \<open>generate_report\<close> opens the report for writing, then walks the \<open>*.txt\<close> entries of
  the directory. The report file holds what was written when the \<open>with\<close> block is left,
  also when \<open>getsize\<close> or \<open>open\<close> raises on the way.
\<close>

fun report_sections ::
  "env \<Rightarrow> filesystem \<Rightarrow> string list \<Rightarrow> string \<Rightarrow> (exn + unit) \<times> string" where
  "report_sections e fs [] acc = (Inr (), acc)"
| "report_sections e fs (file # files) acc =
     (let acc1 = acc @ ''## '' @ stem (basename file) @ ''\<newline>''
      in case getsize e fs file of
           Inl ex \<Rightarrow> (Inl ex, acc1)
         | Inr n \<Rightarrow>
             if n = 0
             then report_sections e fs files
                    (acc1 @ ''Empty - Module Failed or Skipped\<newline>\<newline>'')
             else (case open_r fs file of
                     Inl ex \<Rightarrow> (Inl ex, acc1)
                   | Inr b \<Rightarrow>
                       (case read_text e b of
                          Inl ex \<Rightarrow> (Inl ex, acc1)
                        | Inr content \<Rightarrow>
                            report_sections e fs files
                              (acc1 @ content @ ''\<newline>\<newline>''))))"

definition generate_report :: "env \<Rightarrow> string \<Rightarrow> string \<Rightarrow> state \<Rightarrow> (exn + unit) \<times> state" where
  "generate_report e dir format st =
     (let report_file = path_join dir (''report.'' @ format)
      in case open_w (disk st) report_file [] of
           Inl ex \<Rightarrow> (Inl ex, st)
         | Inr fs1 \<Rightarrow>
             (case report_sections e fs1 (glob_txt fs1 dir) ''# AutoScope Report\<newline>\<newline>'' of
                (Inl ex, text) \<Rightarrow> (Inl ex, st\<lparr>disk := fs_put report_file (File text) fs1\<rparr>)
              | (Inr u, text) \<Rightarrow>
                  (Inr (),
                   py_print (''[INFO] Report generated: '' @ report_file)
                     (st\<lparr>disk := fs_put report_file (File text) fs1\<rparr>))))"

text \<open>The parsed command line; \<open>--report\<close> is one of three choices.\<close>

datatype report_format = Md | Json | Csv

fun format_str :: "report_format \<Rightarrow> string" where
  "format_str Md = ''md''"
| "format_str Json = ''json''"
| "format_str Csv = ''csv''"

record args =
  arg_target :: string
  arg_fast :: bool
  arg_deep :: bool
  arg_resume :: bool
  arg_only_subdomains :: bool
  arg_no_dirs :: bool
  arg_no_screenshots :: bool
  arg_report :: report_format
  arg_output :: string

definition make_config :: "args \<Rightarrow> config_dict" where
  "make_config a =
     [''fast'' \<mapsto> B (arg_fast a), ''deep'' \<mapsto> B (arg_deep a),
      ''timeout'' \<mapsto> N (if arg_fast a then 60 else 300)]"

definition all_classes :: "module_class list" where
  "all_classes =
     [SubdomainModule, PortsModule, HttpProbeModule, JsDiscoveryModule, DirBruteforceModule,
      ParamDiscoveryModule, ScreenshotModule]"

text \<open>The list of the seven module objects: the constructors run in order.\<close>

fun init_modules ::
  "module_class list \<Rightarrow> string \<Rightarrow> string \<Rightarrow> config_dict \<Rightarrow> state \<Rightarrow> (exn + module list) \<times> state" where
  "init_modules [] tgt dir cfg st = (Inr [], st)"
| "init_modules (c # cs) tgt dir cfg st =
     (case init_module c tgt dir cfg st of
        (Inl ex, st1) \<Rightarrow> (Inl ex, st1)
      | (Inr m, st1) \<Rightarrow>
          (case init_modules cs tgt dir cfg st1 of
             (Inl ex, st2) \<Rightarrow> (Inl ex, st2)
           | (Inr ms, st2) \<Rightarrow> (Inr (m # ms), st2)))"

definition select_modules :: "args \<Rightarrow> module list \<Rightarrow> module list" where
  "select_modules a modules =
     (let modules1 = (if arg_only_subdomains a
                      then filter (\<lambda>m. cls m = SubdomainModule) modules else modules);
          modules2 = (if arg_no_dirs a
                      then filter (\<lambda>m. cls m \<noteq> DirBruteforceModule) modules1 else modules1)
      in if arg_no_screenshots a
         then filter (\<lambda>m. cls m \<noteq> ScreenshotModule) modules2 else modules2)"

text \<open>The loop of \<open>main\<close>: an exception that leaves \<open>execute\<close> leaves the loop.\<close>

fun run_modules :: "env \<Rightarrow> module list \<Rightarrow> state \<Rightarrow> (exn + unit) \<times> state" where
  "run_modules e [] st = (Inr (), st)"
| "run_modules e (m # ms) st =
     (case execute e m (py_print (''[INFO] Executing module: '' @ name (cls m)) st) of
        (Inl ex, st1) \<Rightarrow> (Inl ex, st1)
      | (Inr r, st1) \<Rightarrow> run_modules e ms st1)"

definition main :: "env \<Rightarrow> args \<Rightarrow> state \<Rightarrow> (exn + unit) \<times> state" where
  "main e a st =
     (if arg_fast a \<and> arg_deep a
      then (Inr (), py_print ''[ERROR] Cannot use --fast and --deep together'' st)
      else (let cfg = make_config a;
                dir = path_join (arg_output a) (replace_dots (arg_target a))
            in case init_modules all_classes (arg_target a) dir cfg st of
                 (Inl ex, st1) \<Rightarrow> (Inl ex, st1)
               | (Inr modules, st1) \<Rightarrow>
                   (case run_modules e (select_modules a modules) st1 of
                      (Inl ex, st2) \<Rightarrow> (Inl ex, st2)
                    | (Inr u, st2) \<Rightarrow>
                        (case generate_report e dir (format_str (arg_report a)) st2 of
                           (Inl ex, st3) \<Rightarrow> (Inl ex, st3)
                         | (Inr v, st3) \<Rightarrow>
                             (Inr (), py_print ''[SUCCESS] AutoScope scan completed!'' st3)))))"

section \<open>Observations of a run\<close>

text \<open>
  What the statements below read off a run. \<open>report_section\<close> is the text one entry
  contributes to the report: the header with the entry's stem, then the marker for an empty
  file, or the file's text as text mode reads it and a blank line. \<open>js_endpoints\<close> is
  the list \<open>endpoints\<close> of the endpoint discovery when its loop has run (empty when the
  loop is not reached). \<open>file_bytes\<close> is what a regular file holds, \<open>dir_prefix\<close>
  what \<open>str(Path(d) / n)\<close> puts before a plain name \<open>n\<close>, \<open>start_notice\<close> the
  line \<open>main\<close> prints before a module, \<open>run_module\<close> the state after one round of the
  loop of \<open>main\<close>, and \<open>required_tool\<close> the binary each module checks for.
\<close>

definition report_section :: "filesystem \<Rightarrow> string \<Rightarrow> string" where
  "report_section fs file =
     ''## '' @ stem (basename file) @ ''\<newline>''
     @ (case map_of fs file of
          Some (File b) \<Rightarrow>
            if b = [] then ''Empty - Module Failed or Skipped\<newline>\<newline>''
            else universal_newlines b @ ''\<newline>\<newline>''
        | _ \<Rightarrow> [])"

definition js_endpoints :: "env \<Rightarrow> module \<Rightarrow> state \<Rightarrow> string list" where
  "js_endpoints e m st =
     (if which e ''curl''
      then (case open_r (disk st) (path_join (output_dir m) ''httpx.txt'') of
              Inl ex \<Rightarrow> []
            | Inr b \<Rightarrow>
                (case read_lines e b of
                   (lines, Some ex) \<Rightarrow> []
                 | (lines, None) \<Rightarrow> fst (fetch_all e (js_urls lines) [] st)))
      else [])"

definition file_bytes :: "filesystem \<Rightarrow> string \<Rightarrow> string" where
  "file_bytes fs p = (case map_of fs p of Some (File b) \<Rightarrow> b | _ \<Rightarrow> [])"

definition dir_prefix :: "string \<Rightarrow> string" where
  "dir_prefix d =
     path_root d @ (if path_parts d = [] then [] else str_join ''/'' (path_parts d) @ ''/'')"

definition start_notice :: "module \<Rightarrow> string" where
  "start_notice m = ''[INFO] Executing module: '' @ name (cls m)"

definition run_module :: "env \<Rightarrow> state \<Rightarrow> module \<Rightarrow> state" where
  "run_module e st m = snd (execute e m (py_print (start_notice m) st))"

fun required_tool :: "module_class \<Rightarrow> string" where
  "required_tool SubdomainModule = ''subfinder''"
| "required_tool PortsModule = ''naabu''"
| "required_tool HttpProbeModule = ''httpx''"
| "required_tool JsDiscoveryModule = ''curl''"
| "required_tool DirBruteforceModule = ''ffuf''"
| "required_tool ParamDiscoveryModule = ''arjun''"
| "required_tool ScreenshotModule = ''gowitness''"

section \<open>Concrete runs\<close>

text \<open>
  Environments, command lines and file systems on which the model is evaluated below. In
  \<open>env_ok\<close> every tool is installed and every command exits with status 0; \<open>curl\<close>
  prints a script with the same endpoint twice, every other tool prints the URL of a script
  and a URL with a technology tag. In \<open>env_fail\<close> every command exits with status 1, in
  \<open>env_slow\<close> every command runs into its timeout, and in \<open>env_bare\<close> no tool is
  installed. In these four every file decodes; \<open>env_utf8\<close> is \<open>env_ok\<close> with a
  decoder that stops at the byte \<open>0xFF\<close> before it has yielded a line.
\<close>

definition env_ok :: env where
  "env_ok =
     \<lparr>which = (\<lambda>tool. True),
      run = (\<lambda>cmd t fs.
               if take 4 cmd = ''curl''
               then (Completed 0 ''get(/api?id=7); get(/api?id=8)'' [], fs)
               else (Completed 0 ''http://h/app.js\<newline>http://h/ [nginx]\<newline>'' [], fs)),
      elapsed = (\<lambda>cmd. ''0.01''),
      dirsize = 4096,
      decode_error = (\<lambda>b. None)\<rparr>"

definition env_fail :: env where
  "env_fail =
     \<lparr>which = (\<lambda>tool. True),
      run = (\<lambda>cmd t fs. (Completed 1 [] '' no route to host\<newline>'', fs)),
      elapsed = (\<lambda>cmd. ''0.01''),
      dirsize = 4096,
      decode_error = (\<lambda>b. None)\<rparr>"

definition env_slow :: env where
  "env_slow =
     \<lparr>which = (\<lambda>tool. True),
      run = (\<lambda>cmd t fs. (TimeoutExpired, fs)),
      elapsed = (\<lambda>cmd. ''300.00''),
      dirsize = 4096,
      decode_error = (\<lambda>b. None)\<rparr>"

definition env_bare :: env where
  "env_bare =
     \<lparr>which = (\<lambda>tool. False),
      run = (\<lambda>cmd t fs. (Completed 0 [] [], fs)),
      elapsed = (\<lambda>cmd. ''0.00''),
      dirsize = 4096,
      decode_error = (\<lambda>b. None)\<rparr>"

definition env_utf8 :: env where
  "env_utf8 =
     env_ok\<lparr>decode_error :=
              (\<lambda>b. if CHR 0xFF \<in> set b
                    then Some ([], [CHR 0x27] @ ''utf-8'' @ [CHR 0x27]
                                   @ '' codec can'' @ [CHR 0x27] @ ''t decode byte 0xff'')
                    else None)\<rparr>"

definition args_default :: args where
  "args_default =
     \<lparr>arg_target = ''t.io'', arg_fast = False, arg_deep = False, arg_resume = False,
      arg_only_subdomains = False, arg_no_dirs = False, arg_no_screenshots = False,
      arg_report = Md, arg_output = ''o''\<rparr>"

definition state_empty :: state where
  "state_empty = \<lparr>disk = [], out = [], procs = []\<rparr>"

definition module_in :: "module_class \<Rightarrow> module" where
  "module_in c = \<lparr>cls = c, target = ''t.io'', output_dir = ''o/t_io'', config = make_config args_default\<rparr>"

text \<open>
  Working directories of the target \<open>t.io\<close>: a fresh one; one in which \<open>subs.txt\<close>
  exists and \<open>tech.txt\<close> is a directory; one in which the HTTP probe has left the URL of
  a script; the same with a directory named \<open>endpoints.txt\<close>; a fresh one with a directory
  named \<open>endpoints.txt\<close>; one with an empty \<open>.txt\<close> file, a file of another
  suffix, and a \<open>.txt\<close> file whose line ends with \<open>CR LF\<close>; and one whose
  \<open>subs.txt\<close> holds the byte \<open>0xFF\<close>.
\<close>

definition state_fresh :: state where
  "state_fresh = \<lparr>disk = [(''o'', Dir), (''o/t_io'', Dir)], out = [], procs = []\<rparr>"

definition state_tech_dir :: state where
  "state_tech_dir =
     \<lparr>disk = [(''o'', Dir), (''o/t_io'', Dir), (''o/t_io/subs.txt'', File ''h\<newline>''),
              (''o/t_io/tech.txt'', Dir)],
      out = [], procs = []\<rparr>"

definition state_probed :: state where
  "state_probed =
     \<lparr>disk = [(''o'', Dir), (''o/t_io'', Dir),
              (''o/t_io/httpx.txt'', File ''http://h/app.js\<newline>'')],
      out = [], procs = []\<rparr>"

definition state_endpoints_dir :: state where
  "state_endpoints_dir =
     \<lparr>disk = [(''o'', Dir), (''o/t_io'', Dir),
              (''o/t_io/httpx.txt'', File ''http://h/app.js\<newline>''),
              (''o/t_io/endpoints.txt'', Dir)],
      out = [], procs = []\<rparr>"

definition state_blocked :: state where
  "state_blocked =
     \<lparr>disk = [(''o'', Dir), (''o/t_io'', Dir), (''o/t_io/endpoints.txt'', Dir)],
      out = [], procs = []\<rparr>"

definition state_two_files :: state where
  "state_two_files =
     \<lparr>disk = [(''o'', Dir), (''o/t_io'', Dir), (''o/t_io/subs.txt'', File []),
              (''o/t_io/notes.md'', File ''x''),
              (''o/t_io/httpx.txt'', File (''http://h/'' @ [CHR 0x0D, CHR 0x0A]))],
      out = [], procs = []\<rparr>"

definition state_binary :: state where
  "state_binary =
     \<lparr>disk = [(''o'', Dir), (''o/t_io'', Dir), (''o/t_io/subs.txt'', File [CHR ''h'', CHR 0xFF])],
      out = [], procs = []\<rparr>"

lemmas lib_defs = isspace_def whitespace_def str_strip_def str_endswith_def str_split_def file_lines_def
  replace_dots_def isword_def ispathchar_def match_endpoint_def path_root_def path_parts_def
  path_str_def path_norm_def path_join_def all_slashes_def dirname_def basename_def
  path_exists_def ancestors_def is_dir_def missing_error_def open_r_def open_w_def path_mkdir_def
  makedirs_def glob_txt_def rfind_dot_def stem_def read_text_def read_lines_def
  py_print_def subprocess_run_def getsize_def

lemmas prog_defs = truthy_def get_timeout_def init_module_def check_tool_def run_cmd_def
  Subdomain_execute_def port_range_def Ports_execute_def tech_text_def tech_extraction_def
  HttpProbe_execute_def js_urls_def JsDiscovery_execute_def wordlist_def DirBruteforce_execute_def
  ParamDiscovery_execute_def Screenshot_execute_def execute_def generate_report_def make_config_def
  all_classes_def select_modules_def main_def

lemmas run_defs = env_ok_def env_fail_def args_default_def state_empty_def module_in_def

lemma findall_example: "findall ''get(/api?id=7); get(/api?id=8)'' = [''/api?id='', ''/api?id='']"
  by (simp add: findall.simps lib_defs)

section \<open>The command runner\<close>

lemma run_cmd_procs:
  "procs (snd (run_cmd e m cmd outfile st)) = procs st @ [(cmd, Some (get_timeout (config m)))]"
  by (simp add: run_cmd_def subprocess_run_def py_print_def Let_def
      split: prod.splits proc_outcome.splits sum.splits)

text \<open>
  C2: when the subprocess of \<open>run_cmd\<close> exits with a status other than zero,
  \<open>run_cmd\<close> returns failure, prints the error line with the command's stripped standard
  error, and leaves the file system as the subprocess left it: it writes no output file.
\<close>

theorem run_cmd_nonzero_exit:
  "run e cmd (Some (get_timeout (config m))) (disk st) = (Completed rc sout serr, fs1) \<Longrightarrow>
   rc \<noteq> 0 \<Longrightarrow>
   run_cmd e m cmd outfile st =
     (False,
      \<lparr>disk = fs1,
       out = out st @ [''[ERROR] in '' @ name (cls m) @ '': '' @ str_strip serr],
       procs = procs st @ [(cmd, Some (get_timeout (config m)))]\<rparr>)"
  by (simp add: run_cmd_def subprocess_run_def py_print_def)

theorem run_cmd_nonzero_exit_witness:
  "run env_fail ''subfinder -d t.io'' (Some (get_timeout (config (module_in SubdomainModule))))
     (disk state_empty) = (Completed 1 [] '' no route to host\<newline>'', [])
   \<and> (1::int) \<noteq> 0
   \<and> run_cmd env_fail (module_in SubdomainModule) ''subfinder -d t.io'' ''o/t_io/subs.txt'' state_empty =
       (False,
        \<lparr>disk = [], out = [''[ERROR] in subdomain: no route to host''],
         procs = [(''subfinder -d t.io'', Some 300)]\<rparr>)"
proof -
  have h: "run env_fail ''subfinder -d t.io'' (Some (get_timeout (config (module_in SubdomainModule))))
     (disk state_empty) = (Completed 1 [] '' no route to host\<newline>'', [])"
    by (simp add: env_fail_def state_empty_def)
  have t: "get_timeout (config (module_in SubdomainModule)) = 300"
    by (simp add: module_in_def make_config_def args_default_def get_timeout_def)
  have s: "str_strip '' no route to host\<newline>'' = ''no route to host''"
    by (simp add: str_strip_def isspace_def whitespace_def)
  from run_cmd_nonzero_exit [OF h, of "''o/t_io/subs.txt''"] h t s show ?thesis
    by (simp add: module_in_def state_empty_def)
qed

text \<open>
  Every call of \<open>run_cmd\<close> starts exactly one subprocess and passes it the configured
  timeout.
\<close>

theorem run_cmd_passes_timeout:
  "procs (snd (run_cmd e m cmd outfile st)) = procs st @ [(cmd, Some (get_timeout (config m)))]"
  by (rule run_cmd_procs)

text \<open>
  A subprocess that runs into its timeout is reported by the timeout line, not by the
  line of the generic handler, and \<open>run_cmd\<close> writes no output file.
\<close>

theorem run_cmd_timeout_reported:
  "run e cmd (Some (get_timeout (config m))) (disk st) = (TimeoutExpired, fs1) \<Longrightarrow>
   run_cmd e m cmd outfile st =
     (False,
      \<lparr>disk = fs1,
       out = out st @ [''[ERROR] Timeout in '' @ name (cls m)],
       procs = procs st @ [(cmd, Some (get_timeout (config m)))]\<rparr>)"
  by (simp add: run_cmd_def subprocess_run_def py_print_def)

theorem run_cmd_timeout_reported_witness:
  "run env_slow ''naabu -host t.io'' (Some (get_timeout (config (module_in PortsModule))))
     (disk state_fresh) = (TimeoutExpired, disk state_fresh)
   \<and> run_cmd env_slow (module_in PortsModule) ''naabu -host t.io'' ''o/t_io/ports.txt'' state_fresh =
       (False,
        \<lparr>disk = [(''o'', Dir), (''o/t_io'', Dir)], out = [''[ERROR] Timeout in ports''],
         procs = [(''naabu -host t.io'', Some 300)]\<rparr>)"
proof -
  have h: "run env_slow ''naabu -host t.io'' (Some (get_timeout (config (module_in PortsModule))))
     (disk state_fresh) = (TimeoutExpired, disk state_fresh)"
    by (simp add: env_slow_def)
  have t: "get_timeout (config (module_in PortsModule)) = 300"
    by (simp add: module_in_def make_config_def args_default_def get_timeout_def)
  from run_cmd_timeout_reported [OF h, of "''o/t_io/ports.txt''"] h t show ?thesis
    by (simp add: module_in_def state_fresh_def)
qed

section \<open>The profiles\<close>

text \<open>
  C5: when \<open>--fast\<close> and \<open>--deep\<close> are both given, \<open>main\<close> prints the error line and
  returns: the file system is unchanged (no output directory, no output file, no report), no
  subprocess is started and no module's start notice is printed.
\<close>

theorem fast_and_deep_abort:
  "arg_fast a \<and> arg_deep a \<Longrightarrow>
   main e a st =
     (Inr (), st\<lparr>out := out st @ [''[ERROR] Cannot use --fast and --deep together'']\<rparr>)"
  by (simp add: main_def py_print_def)

theorem fast_and_deep_abort_witness:
  "arg_fast (args_default\<lparr>arg_fast := True, arg_deep := True\<rparr>)
   \<and> arg_deep (args_default\<lparr>arg_fast := True, arg_deep := True\<rparr>)
   \<and> main env_ok (args_default\<lparr>arg_fast := True, arg_deep := True\<rparr>) state_empty =
       (Inr (),
        \<lparr>disk = [], out = [''[ERROR] Cannot use --fast and --deep together''], procs = []\<rparr>)"
  using fast_and_deep_abort [of "args_default\<lparr>arg_fast := True, arg_deep := True\<rparr>" env_ok state_empty]
  by (simp add: state_empty_def)

text \<open>
  C6: the configuration built from the command line selects the port range 1-1000 and the
  timeout 60 under \<open>--fast\<close>, and the port range 1-65535 and the timeout 300 otherwise
  (\<open>--deep\<close> or neither flag); the port scan, when its tool is installed, starts exactly
  one subprocess, with that range in its command line and that timeout.
\<close>

theorem profile_port_range_and_timeout:
  "port_range (make_config a) = (if arg_fast a then ''1-1000'' else ''1-65535'')
   \<and> get_timeout (make_config a) = (if arg_fast a then 60 else 300)
   \<and> procs (snd (Ports_execute e (m\<lparr>config := make_config a\<rparr>) st)) =
       (if which e ''naabu''
        then procs st @
             [(''naabu -host '' @ target m @ '' -p ''
               @ (if arg_fast a then ''1-1000'' else ''1-65535'')
               @ '' -silent -o '' @ path_join (output_dir m) ''ports.txt'',
               Some (if arg_fast a then 60 else 300))]
        else procs st)"
proof -
  have pr: "port_range (make_config a) = (if arg_fast a then ''1-1000'' else ''1-65535'')"
    by (simp add: port_range_def make_config_def truthy_def)
  have t: "get_timeout (make_config a) = (if arg_fast a then 60 else 300)"
    by (simp add: get_timeout_def make_config_def)
  have "procs (snd (Ports_execute e (m\<lparr>config := make_config a\<rparr>) st)) =
       (if which e ''naabu''
        then procs st @
             [(''naabu -host '' @ target m @ '' -p '' @ port_range (make_config a)
               @ '' -silent -o '' @ path_join (output_dir m) ''ports.txt'',
               Some (get_timeout (make_config a)))]
        else procs st)"
    by (simp add: Ports_execute_def check_tool_def py_print_def Let_def run_cmd_procs split_beta)
  with pr t show ?thesis by simp
qed

section \<open>Tool checks and dependency gates\<close>

text \<open>
  A module whose tool is not installed returns failure, starts no subprocess and leaves
  the file system as it is.
\<close>

theorem missing_tool_fails_without_work:
  "\<not> which e (required_tool (cls m)) \<Longrightarrow>
   fst (execute e m st) = Inr False
   \<and> disk (snd (execute e m st)) = disk st
   \<and> procs (snd (execute e m st)) = procs st"
  by (cases "cls m")
     (simp_all add: execute_def Subdomain_execute_def Ports_execute_def HttpProbe_execute_def
        JsDiscovery_execute_def DirBruteforce_execute_def ParamDiscovery_execute_def
        Screenshot_execute_def check_tool_def py_print_def Let_def)

theorem missing_tool_fails_without_work_witness:
  "\<not> which env_bare (required_tool (cls (module_in ScreenshotModule)))
   \<and> execute env_bare (module_in ScreenshotModule) state_fresh =
       (Inr False,
        state_fresh\<lparr>out := [''[ERROR] gowitness not found. Please install it and add to PATH.'',
                             ''[ERROR] Install gowitness via: go install github.com/sensepost/gowitness@latest'']\<rparr>)"
proof -
  have h: "\<not> which env_bare (required_tool (cls (module_in ScreenshotModule)))"
    by (simp add: env_bare_def)
  have v: "execute env_bare (module_in ScreenshotModule) state_fresh =
       (Inr False,
        state_fresh\<lparr>out := [''[ERROR] gowitness not found. Please install it and add to PATH.'',
                             ''[ERROR] Install gowitness via: go install github.com/sensepost/gowitness@latest'']\<rparr>)"
    by (simp add: execute_def Screenshot_execute_def check_tool_def py_print_def Let_def
        env_bare_def module_in_def state_fresh_def)
  from missing_tool_fails_without_work [OF h, of state_fresh] h v show ?thesis by simp
qed

text \<open>
  The HTTP probe without \<open>subs.txt\<close> returns failure, starts no subprocess and leaves
  the file system as it is.
\<close>

theorem http_probe_skip_no_effect:
  "\<not> path_exists (disk st) (path_join (output_dir m) ''subs.txt'') \<Longrightarrow>
   fst (HttpProbe_execute e m st) = Inr False
   \<and> disk (snd (HttpProbe_execute e m st)) = disk st
   \<and> procs (snd (HttpProbe_execute e m st)) = procs st"
  by (simp add: HttpProbe_execute_def check_tool_def py_print_def Let_def)

theorem http_probe_skip_no_effect_witness:
  "\<not> path_exists (disk state_fresh) (path_join (output_dir (module_in HttpProbeModule)) ''subs.txt'')
   \<and> HttpProbe_execute env_ok (module_in HttpProbeModule) state_fresh =
       (Inr False, state_fresh\<lparr>out := [''[INFO] Skipping HTTP probe: subs.txt not found'']\<rparr>)"
proof -
  have h: "\<not> path_exists (disk state_fresh) (path_join (output_dir (module_in HttpProbeModule)) ''subs.txt'')"
    by (simp add: lib_defs module_in_def state_fresh_def)
  have v: "HttpProbe_execute env_ok (module_in HttpProbeModule) state_fresh =
       (Inr False, state_fresh\<lparr>out := [''[INFO] Skipping HTTP probe: subs.txt not found'']\<rparr>)"
    by (simp add: HttpProbe_execute_def check_tool_def Let_def env_ok_def lib_defs
        module_in_def state_fresh_def)
  from http_probe_skip_no_effect [OF h, of env_ok] h v show ?thesis by simp
qed

text \<open>
  The endpoint discovery without \<open>httpx.txt\<close> returns failure, starts no subprocess and
  leaves the file system as it is.
\<close>

theorem js_discovery_skip_no_effect:
  "\<not> path_exists (disk st) (path_join (output_dir m) ''httpx.txt'') \<Longrightarrow>
   fst (JsDiscovery_execute e m st) = Inr False
   \<and> disk (snd (JsDiscovery_execute e m st)) = disk st
   \<and> procs (snd (JsDiscovery_execute e m st)) = procs st"
  by (simp add: JsDiscovery_execute_def check_tool_def py_print_def Let_def)

theorem js_discovery_skip_no_effect_witness:
  "\<not> path_exists (disk state_fresh) (path_join (output_dir (module_in JsDiscoveryModule)) ''httpx.txt'')
   \<and> JsDiscovery_execute env_ok (module_in JsDiscoveryModule) state_fresh =
       (Inr False, state_fresh\<lparr>out := [''[INFO] Skipping JS discovery: httpx.txt not found'']\<rparr>)"
proof -
  have h: "\<not> path_exists (disk state_fresh) (path_join (output_dir (module_in JsDiscoveryModule)) ''httpx.txt'')"
    by (simp add: lib_defs module_in_def state_fresh_def)
  have v: "JsDiscovery_execute env_ok (module_in JsDiscoveryModule) state_fresh =
       (Inr False, state_fresh\<lparr>out := [''[INFO] Skipping JS discovery: httpx.txt not found'']\<rparr>)"
    by (simp add: JsDiscovery_execute_def check_tool_def Let_def env_ok_def lib_defs
        module_in_def state_fresh_def)
  from js_discovery_skip_no_effect [OF h, of env_ok] h v show ?thesis by simp
qed

text \<open>
  C1, at a fresh working directory with \<open>gowitness\<close> installed: \<open>httpx.txt\<close> does not
  exist and the screenshot module returns failure, but it has created the directory
  \<open>screenshots\<close> before it looked for \<open>httpx.txt\<close>.
\<close>

theorem screenshot_skip_creates_directory:
  "\<not> path_exists (disk state_fresh) ''o/t_io/httpx.txt''
   \<and> Screenshot_execute env_ok (module_in ScreenshotModule) state_fresh =
       (Inr False,
        \<lparr>disk = [(''o'', Dir), (''o/t_io'', Dir), (''o/t_io/screenshots'', Dir)],
         out = [''[INFO] Skipping screenshots: httpx.txt not found''],
         procs = []\<rparr>)"
  by (simp add: Screenshot_execute_def check_tool_def env_ok_def module_in_def state_fresh_def
      lib_defs)

text \<open>
  C3, at a working directory whose \<open>httpx.txt\<close> lists one script: the endpoint discovery
  starts \<open>curl\<close> with no \<open>timeout\<close> argument.
\<close>

theorem curl_started_without_timeout:
  "procs (snd (JsDiscovery_execute env_ok (module_in JsDiscoveryModule) state_probed))
   = [(''curl -s http://h/app.js'', None)]"
  by (simp add: JsDiscovery_execute_def check_tool_def env_ok_def module_in_def state_probed_def
      js_urls_def lib_defs findall_example)

section \<open>The HTTP probe\<close>

text \<open>
  C9: in the HTTP probe, when the tool is installed, \<open>subs.txt\<close> exists and \<open>run_cmd\<close>
  returns success, but the extraction of the technology tags raises an exception, then
  \<open>execute\<close> prints the extraction error and returns failure.
\<close>

theorem tech_extraction_failure:
  "which e ''httpx'' \<Longrightarrow>
   path_exists (disk st) (path_join (output_dir m) ''subs.txt'') \<Longrightarrow>
   run_cmd e m (''httpx -l '' @ path_join (output_dir m) ''subs.txt'' @ '' -silent -o ''
                @ path_join (output_dir m) ''httpx.txt'' @ '' -tech-detect'')
     (path_join (output_dir m) ''httpx.txt'') st = (True, st2) \<Longrightarrow>
   tech_extraction e (path_join (output_dir m) ''httpx.txt'') (path_join (output_dir m) ''tech.txt'')
     (disk st2) = (Inl ex, fs3) \<Longrightarrow>
   HttpProbe_execute e m st =
     (Inr False, py_print (''[ERROR] Tech extraction failed: '' @ exn_str ex) (st2\<lparr>disk := fs3\<rparr>))"
  by (simp add: HttpProbe_execute_def check_tool_def Let_def)

theorem tech_extraction_failure_witness:
  "which env_ok ''httpx''
   \<and> path_exists (disk state_tech_dir) (path_join (output_dir (module_in HttpProbeModule)) ''subs.txt'')
   \<and> fst (run_cmd env_ok (module_in HttpProbeModule)
        ''httpx -l o/t_io/subs.txt -silent -o o/t_io/httpx.txt -tech-detect''
        ''o/t_io/httpx.txt'' state_tech_dir) = True
   \<and> fst (tech_extraction env_ok ''o/t_io/httpx.txt'' ''o/t_io/tech.txt''
        (disk (snd (run_cmd env_ok (module_in HttpProbeModule)
        ''httpx -l o/t_io/subs.txt -silent -o o/t_io/httpx.txt -tech-detect''
        ''o/t_io/httpx.txt'' state_tech_dir)))) = Inl (IsADirectoryError ''o/t_io/tech.txt'')
   \<and> fst (HttpProbe_execute env_ok (module_in HttpProbeModule) state_tech_dir) = Inr False
   \<and> last (out (snd (HttpProbe_execute env_ok (module_in HttpProbeModule) state_tech_dir)))
       = ''[ERROR] Tech extraction failed: [Errno 21] Is a directory: '' @ [CHR 0x27]
         @ ''o/t_io/tech.txt'' @ [CHR 0x27]"
proof -
  let ?m = "module_in HttpProbeModule"
  let ?cmd = "''httpx -l o/t_io/subs.txt -silent -o o/t_io/httpx.txt -tech-detect''"
  have od: "output_dir ?m = ''o/t_io''" by (simp add: module_in_def)
  have pj: "path_join ''o/t_io'' ''subs.txt'' = ''o/t_io/subs.txt''"
    "path_join ''o/t_io'' ''httpx.txt'' = ''o/t_io/httpx.txt''"
    "path_join ''o/t_io'' ''tech.txt'' = ''o/t_io/tech.txt''"
    by (simp_all add: lib_defs)
  have w: "which env_ok ''httpx''" by (simp add: env_ok_def)
  have p: "path_exists (disk state_tech_dir) (path_join (output_dir ?m) ''subs.txt'')"
    by (simp add: od pj path_exists_def state_tech_dir_def)
  obtain st2 where r: "run_cmd env_ok ?m ?cmd ''o/t_io/httpx.txt'' state_tech_dir = (True, st2)"
    and d: "disk st2 = [(''o'', Dir), (''o/t_io'', Dir), (''o/t_io/subs.txt'', File ''h\<newline>''),
              (''o/t_io/tech.txt'', Dir),
              (''o/t_io/httpx.txt'', File ''http://h/app.js\<newline>http://h/ [nginx]\<newline>'')]"
    by (simp add: run_cmd_def subprocess_run_def env_ok_def state_tech_dir_def open_w_def
        is_dir_def all_slashes_def dirname_def py_print_def)
  have t: "tech_extraction env_ok ''o/t_io/httpx.txt'' ''o/t_io/tech.txt'' (disk st2)
           = (Inl (IsADirectoryError ''o/t_io/tech.txt''), disk st2)"
    by (simp add: d tech_extraction_def open_r_def open_w_def)
  from tech_extraction_failure [of env_ok state_tech_dir ?m st2 "IsADirectoryError ''o/t_io/tech.txt''" "disk st2"]
    w p r t show ?thesis
    by (simp add: od pj py_print_def)
qed

section \<open>The report\<close>

lemma split_sep_plain: "CHR ''/'' \<notin> set n \<Longrightarrow> split_sep cur n = [cur @ n]"
  by (induction n arbitrary: cur) auto

lemma path_root_plain: "CHR ''/'' \<notin> set n \<Longrightarrow> path_root n = []"
  by (cases n) (auto simp: path_root_def)

lemma path_parts_plain:
  "CHR ''/'' \<notin> set n \<Longrightarrow> n \<noteq> [] \<Longrightarrow> n \<noteq> ''.'' \<Longrightarrow> path_parts n = [n]"
  by (simp add: path_parts_def split_sep_plain)

lemma str_join_snoc:
  "str_join sep (xs @ [n]) = (if xs = [] then n else str_join sep xs @ sep @ n)"
  by (induction sep xs rule: str_join.induct) auto

lemma path_root_slashes: "all_slashes (path_root d)"
  by (simp add: path_root_def all_slashes_def)

lemma path_join_plain:
  assumes "CHR ''/'' \<notin> set n" "n \<noteq> []" "n \<noteq> ''.''"
  shows "path_join d n = dir_prefix d @ n"
  using assms
  by (simp add: path_join_def path_root_plain path_parts_plain path_str_def str_join_snoc dir_prefix_def)

lemma dir_prefix_end: "dir_prefix d = [] \<or> last (dir_prefix d) = CHR ''/''"
  using path_root_slashes [of d]
  by (cases "path_root d" rule: rev_cases) (auto simp: dir_prefix_def all_slashes_def)

lemma basename_join:
  assumes "CHR ''/'' \<notin> set n" "n \<noteq> []" "n \<noteq> ''.''"
  shows "basename (path_join d n) = n"
proof -
  have tw: "takeWhile (\<lambda>c. c \<noteq> CHR ''/'') (rev n) = rev n"
    using assms(1) by (auto simp: takeWhile_eq_all_conv)
  have "takeWhile (\<lambda>c. c \<noteq> CHR ''/'') (rev n @ rev (dir_prefix d)) = rev n"
  proof (cases "dir_prefix d" rule: rev_cases)
    case Nil
    then show ?thesis using tw by simp
  next
    case (snoc ys y)
    with dir_prefix_end [of d] have "y = CHR ''/''" by simp
    with snoc have "takeWhile (\<lambda>c. c \<noteq> CHR ''/'') (rev n @ rev (dir_prefix d))
        = takeWhile (\<lambda>c. c \<noteq> CHR ''/'') (rev n)"
      by (simp add: takeWhile_tail)
    with tw show ?thesis by simp
  qed
  then show ?thesis by (simp add: basename_def path_join_plain [OF assms])
qed

lemma path_join_not_dir:
  assumes "CHR ''/'' \<notin> set n" "n \<noteq> []" "n \<noteq> ''.''"
  shows "path_join d n \<noteq> path_norm d"
proof
  assume eq: "path_join d n = path_norm d"
  show False
  proof (cases "path_parts d = []")
    case True
    with eq assms show False
      by (auto simp: path_join_plain dir_prefix_def path_norm_def path_str_def split: if_splits)
  next
    case False
    with eq assms show False
      by (auto simp: path_join_plain dir_prefix_def path_norm_def path_str_def)
  qed
qed

lemma report_name_plain:
  "CHR ''/'' \<notin> set (''report.'' @ format_str fmt) \<and> ''report.'' @ format_str fmt \<noteq> []
   \<and> ''report.'' @ format_str fmt \<noteq> ''.''"
  by (cases fmt) simp_all

lemma report_name_suffix: "\<not> str_endswith (''report.'' @ format_str fmt) ''.txt''"
  by (cases fmt) (simp_all add: str_endswith_def)

lemma map_of_fs_put: "map_of (fs_put p v fs) q = (if q = p then Some v else map_of fs q)"
  by (induction fs) auto

lemma fs_put_twice: "fs_put p v (fs_put p w fs) = fs_put p v fs"
  by (induction fs) auto

lemma keys_fs_put:
  "map fst (fs_put p v fs) = (if p \<in> set (map fst fs) then map fst fs else map fst fs @ [p])"
  by (induction fs) (auto simp: rev_image_eqI)

lemma glob_txt_fs_put:
  assumes "\<not> str_endswith (basename p) ''.txt''" and "p \<noteq> path_norm d"
  shows "glob_txt (fs_put p v fs) d = glob_txt fs d"
proof -
  let ?P = "\<lambda>q. basename q \<noteq> [] \<and> path_join d (basename q) = q \<and> str_endswith (basename q) ''.txt''"
  have "filter ?P (remdups (map fst (fs_put p v fs))) = remdups (filter ?P (map fst (fs_put p v fs)))"
    by (simp add: remdups_filter)
  also have "filter ?P (map fst (fs_put p v fs)) = filter ?P (map fst fs)"
    using assms(1) by (simp add: keys_fs_put)
  also have "remdups (filter ?P (map fst fs)) = filter ?P (remdups (map fst fs))"
    by (simp add: remdups_filter)
  finally have f: "filter ?P (remdups (map fst (fs_put p v fs))) = filter ?P (remdups (map fst fs))" .
  have d: "is_dir (fs_put p v fs) (path_norm d) = is_dir fs (path_norm d)"
    using assms(2) by (simp add: is_dir_def map_of_fs_put)
  show ?thesis unfolding glob_txt_def d f by (rule refl)
qed

lemma report_sections_files:
  "\<forall>p \<in> set files. \<exists>b. map_of fs p = Some (File b) \<and> (b = [] \<or> decode_error e b = None) \<Longrightarrow>
   report_sections e fs files acc = (Inr (), acc @ concat (map (report_section fs) files))"
proof (induction files arbitrary: acc)
  case Nil
  then show ?case by simp
next
  case (Cons p ps)
  then obtain b where t: "map_of fs p = Some (File b)" and dec: "b = [] \<or> decode_error e b = None"
    by auto
  from Cons have ih: "\<And>acc. report_sections e fs ps acc = (Inr (), acc @ concat (map (report_section fs) ps))"
    by simp
  have sp: "report_section fs p =
      ''## '' @ stem (basename p) @ ''\<newline>''
      @ (if b = [] then ''Empty - Module Failed or Skipped\<newline>\<newline>''
         else universal_newlines b @ ''\<newline>\<newline>'')"
    by (simp add: report_section_def t)
  show ?case
  proof (cases "b = []")
    case True
    then show ?thesis by (simp add: t ih sp getsize_def Let_def)
  next
    case False
    with dec have "read_text e b = Inr (universal_newlines b)" by (simp add: read_text_def)
    with False show ?thesis by (simp add: t ih sp getsize_def open_r_def Let_def)
  qed
qed

lemma report_section_cong:
  "map_of fs1 p = map_of fs p \<Longrightarrow> report_section fs1 p = report_section fs p"
  by (simp add: report_section_def)

text \<open>
  C10: for each of the three report formats the name of the report file does not end in
  \<open>.txt\<close>, so in no file system is the report file among the \<open>*.txt\<close> entries that
  \<open>generate_report\<close> turns into sections.
\<close>

theorem report_not_own_section:
  "\<not> str_endswith (''report.'' @ format_str fmt) ''.txt''
   \<and> path_join dir (''report.'' @ format_str fmt) \<notin> set (glob_txt fs1 dir)"
proof -
  have a: "\<not> str_endswith (''report.'' @ format_str fmt) ''.txt''"
    by (rule report_name_suffix)
  have "basename (path_join dir (''report.'' @ format_str fmt)) = ''report.'' @ format_str fmt"
    using report_name_plain [of fmt] by (intro basename_join) simp_all
  with a show ?thesis by (auto simp: glob_txt_def)
qed

text \<open>
  C7, as the code has it: when the \<open>*.txt\<close> entries of the working directory are regular
  files whose bytes decode and the report file can be opened for writing,
  \<open>generate_report\<close> writes the title and then exactly one section per \<open>*.txt\<close> entry,
  in the order of the listing and each entry once: the header with the entry's stem, then
  the marker \<open>Empty - Module Failed or Skipped\<close> for a file of size zero, and for any other
  file its whole text as text mode reads it, with \<open>CR LF\<close> and \<open>CR\<close> read as
  \<open>LF\<close>.
\<close>

theorem report_sections_of_txt_files:
  assumes files: "\<forall>p \<in> set (glob_txt (disk st) dir).
                    \<exists>b. map_of (disk st) p = Some (File b) \<and> (b = [] \<or> decode_error e b = None)"
    and ow: "open_w (disk st) (path_join dir (''report.'' @ format_str fmt)) [] = Inr fs1"
  shows "generate_report e dir (format_str fmt) st =
           (Inr (),
            st\<lparr>disk := fs_put (path_join dir (''report.'' @ format_str fmt))
                      (File (''# AutoScope Report\<newline>\<newline>''
                             @ concat (map (report_section (disk st)) (glob_txt (disk st) dir))))
                      (disk st),
               out := out st @ [''[INFO] Report generated: ''
                               @ path_join dir (''report.'' @ format_str fmt)]\<rparr>)
         \<and> distinct (glob_txt (disk st) dir)"
proof -
  define r where "r = path_join dir (''report.'' @ format_str fmt)"
  define title where "title = ''# AutoScope Report\<newline>\<newline>''"
  let ?fs = "disk st"
  let ?fs1 = "fs_put r (File []) ?fs"
  have gr: "generate_report e dir (format_str fmt) st =
      (case open_w ?fs r [] of
         Inl ex \<Rightarrow> (Inl ex, st)
       | Inr fs1 \<Rightarrow>
           (case report_sections e fs1 (glob_txt fs1 dir) title of
              (Inl ex, body) \<Rightarrow> (Inl ex, st\<lparr>disk := fs_put r (File body) fs1\<rparr>)
            | (Inr u, body) \<Rightarrow>
                (Inr (),
                 py_print (''[INFO] Report generated: '' @ r)
                   (st\<lparr>disk := fs_put r (File body) fs1\<rparr>))))"
    unfolding generate_report_def Let_def r_def title_def by (rule refl)
  have ow1: "open_w ?fs r [] = Inr ?fs1"
    using ow unfolding r_def by (auto simp: open_w_def split: option.splits node.splits if_splits)
  have bn: "basename r = ''report.'' @ format_str fmt"
    unfolding r_def using report_name_plain [of fmt] by (intro basename_join) simp_all
  have notxt: "\<not> str_endswith (basename r) ''.txt''"
    unfolding bn by (rule report_name_suffix)
  have ne: "r \<noteq> path_norm dir"
    unfolding r_def using report_name_plain [of fmt] by (intro path_join_not_dir) simp_all
  have g: "glob_txt ?fs1 dir = glob_txt ?fs dir"
    using notxt ne by (rule glob_txt_fs_put)
  have notin: "r \<notin> set (glob_txt ?fs dir)"
    using notxt by (auto simp: glob_txt_def)
  have files1: "\<forall>p \<in> set (glob_txt ?fs dir).
                  \<exists>b. map_of ?fs1 p = Some (File b) \<and> (b = [] \<or> decode_error e b = None)"
    using files notin by (auto simp: map_of_fs_put)
  have sec: "map (report_section ?fs1) (glob_txt ?fs dir) = map (report_section ?fs) (glob_txt ?fs dir)"
    using notin by (auto intro!: report_section_cong simp: map_of_fs_put)
  have rs: "report_sections e ?fs1 (glob_txt ?fs1 dir) title
        = (Inr (), title @ concat (map (report_section ?fs) (glob_txt ?fs dir)))"
  proof -
    have "report_sections e ?fs1 (glob_txt ?fs dir) title
        = (Inr (), title @ concat (map (report_section ?fs1) (glob_txt ?fs dir)))"
      by (rule report_sections_files [OF files1])
    then show ?thesis by (simp only: g sec)
  qed
  have result: "generate_report e dir (format_str fmt) st =
            (Inr (),
             st\<lparr>disk := fs_put r
                       (File (title @ concat (map (report_section ?fs) (glob_txt ?fs dir)))) ?fs,
                out := out st @ [''[INFO] Report generated: '' @ r]\<rparr>)"
    by (simp add: gr ow1 rs fs_put_twice py_print_def)
  have d: "distinct (glob_txt ?fs dir)" by (simp add: glob_txt_def)
  from result d show ?thesis unfolding r_def title_def by blast
qed

theorem report_sections_of_txt_files_witness:
  "glob_txt (disk state_two_files) ''o/t_io'' = [''o/t_io/subs.txt'', ''o/t_io/httpx.txt'']
   \<and> map_of (disk state_two_files) ''o/t_io/subs.txt'' = Some (File [])
   \<and> map_of (disk state_two_files) ''o/t_io/httpx.txt''
       = Some (File (''http://h/'' @ [CHR 0x0D, CHR 0x0A]))
   \<and> decode_error env_ok (''http://h/'' @ [CHR 0x0D, CHR 0x0A]) = None
   \<and> open_w (disk state_two_files) ''o/t_io/report.md'' []
       = Inr (disk state_two_files @ [(''o/t_io/report.md'', File [])])
   \<and> generate_report env_ok ''o/t_io'' (format_str Md) state_two_files =
       (Inr (),
        \<lparr>disk = [(''o'', Dir), (''o/t_io'', Dir), (''o/t_io/subs.txt'', File []),
                 (''o/t_io/notes.md'', File ''x''),
                 (''o/t_io/httpx.txt'', File (''http://h/'' @ [CHR 0x0D, CHR 0x0A])),
                 (''o/t_io/report.md'',
                  File ''# AutoScope Report\<newline>\<newline>## subs\<newline>Empty - Module Failed or Skipped\<newline>\<newline>## httpx\<newline>http://h/\<newline>\<newline>\<newline>'')],
         out = [''[INFO] Report generated: o/t_io/report.md''],
         procs = []\<rparr>)"
proof -
  have g: "glob_txt (disk state_two_files) ''o/t_io'' = [''o/t_io/subs.txt'', ''o/t_io/httpx.txt'']"
    by (simp add: state_two_files_def lib_defs)
  have f1: "map_of (disk state_two_files) ''o/t_io/subs.txt'' = Some (File [])"
    by (simp add: state_two_files_def)
  have f2: "map_of (disk state_two_files) ''o/t_io/httpx.txt''
            = Some (File (''http://h/'' @ [CHR 0x0D, CHR 0x0A]))"
    by (simp add: state_two_files_def)
  have dec: "decode_error env_ok b = None" for b by (simp add: env_ok_def)
  have files: "\<forall>p \<in> set (glob_txt (disk state_two_files) ''o/t_io'').
                 \<exists>b. map_of (disk state_two_files) p = Some (File b)
                     \<and> (b = [] \<or> decode_error env_ok b = None)"
    unfolding g using f1 f2 dec by simp
  have r: "path_join ''o/t_io'' (''report.'' @ format_str Md) = ''o/t_io/report.md''"
    by (simp add: lib_defs)
  have put: "fs_put ''o/t_io/report.md'' v (disk state_two_files) = disk state_two_files @ [(''o/t_io/report.md'', v)]" for v
    by (simp add: state_two_files_def)
  have ow: "open_w (disk state_two_files) ''o/t_io/report.md'' []
            = Inr (disk state_two_files @ [(''o/t_io/report.md'', File [])])"
    by (simp add: state_two_files_def lib_defs)
  have s1: "report_section (disk state_two_files) ''o/t_io/subs.txt''
            = ''## subs\<newline>Empty - Module Failed or Skipped\<newline>\<newline>''"
    by (simp add: report_section_def f1 stem_def rfind_dot_def basename_def)
  have s2: "report_section (disk state_two_files) ''o/t_io/httpx.txt''
            = ''## httpx\<newline>http://h/\<newline>\<newline>\<newline>''"
    by (simp add: report_section_def f2 stem_def rfind_dot_def basename_def)
  have res: "generate_report env_ok ''o/t_io'' (format_str Md) state_two_files =
             (Inr (),
              state_two_files\<lparr>disk := disk state_two_files @ [(''o/t_io/report.md'',
                 File (''# AutoScope Report\<newline>\<newline>'' @ concat (map (report_section (disk state_two_files))
                    [''o/t_io/subs.txt'', ''o/t_io/httpx.txt''])))],
                out := out state_two_files @ [''[INFO] Report generated: '' @ ''o/t_io/report.md'']\<rparr>)"
    using report_sections_of_txt_files [OF files, of Md, unfolded r, OF ow]
    unfolding g by (simp only: put)
  show ?thesis
    unfolding res by (simp add: g f1 f2 dec ow s1 s2) (simp add: state_two_files_def)
qed

text \<open>
  C7 as stated fails where a file holds a \<open>CR\<close>: the report embeds the text with
  \<open>LF\<close> in its place, so the file's contents are not a part of the report.
\<close>

theorem report_not_verbatim:
  "file_bytes (disk state_two_files) ''o/t_io/httpx.txt'' = ''http://h/'' @ [CHR 0x0D, CHR 0x0A]
   \<and> fst (generate_report env_ok ''o/t_io'' ''md'' state_two_files) = Inr ()
   \<and> file_bytes (disk (snd (generate_report env_ok ''o/t_io'' ''md'' state_two_files)))
         ''o/t_io/report.md''
       = ''# AutoScope Report\<newline>\<newline>## subs\<newline>Empty - Module Failed or Skipped\<newline>\<newline>## httpx\<newline>http://h/\<newline>\<newline>\<newline>''
   \<and> \<not> sublist (''http://h/'' @ [CHR 0x0D, CHR 0x0A])
          (file_bytes (disk (snd (generate_report env_ok ''o/t_io'' ''md'' state_two_files)))
             ''o/t_io/report.md'')"
proof -
  have a: "file_bytes (disk state_two_files) ''o/t_io/httpx.txt'' = ''http://h/'' @ [CHR 0x0D, CHR 0x0A]"
    by (simp add: file_bytes_def state_two_files_def)
  have b: "generate_report env_ok ''o/t_io'' ''md'' state_two_files =
       (Inr (),
        \<lparr>disk = [(''o'', Dir), (''o/t_io'', Dir), (''o/t_io/subs.txt'', File []),
                 (''o/t_io/notes.md'', File ''x''),
                 (''o/t_io/httpx.txt'', File (''http://h/'' @ [CHR 0x0D, CHR 0x0A])),
                 (''o/t_io/report.md'',
                  File ''# AutoScope Report\<newline>\<newline>## subs\<newline>Empty - Module Failed or Skipped\<newline>\<newline>## httpx\<newline>http://h/\<newline>\<newline>\<newline>'')],
         out = [''[INFO] Report generated: o/t_io/report.md''],
         procs = []\<rparr>)"
    by (simp add: generate_report_def state_two_files_def env_ok_def lib_defs Let_def)
  have c: "\<not> sublist (''http://h/'' @ [CHR 0x0D, CHR 0x0A])
      ''# AutoScope Report\<newline>\<newline>## subs\<newline>Empty - Module Failed or Skipped\<newline>\<newline>## httpx\<newline>http://h/\<newline>\<newline>\<newline>''"
    by (simp add: sublist_Cons_right)
  show ?thesis unfolding b using a c by (simp add: file_bytes_def)
qed

text \<open>
  Where an entry cannot be read, the exception leaves \<open>generate_report\<close>: with a
  directory named \<open>tech.txt\<close> the report ends after that entry's header, and with a
  file that does not decode it ends after the header of that file. In both runs no
  \<open>Report generated\<close> line is printed.
\<close>

theorem report_stopped_by_exception:
  "generate_report env_ok ''o/t_io'' ''md'' state_tech_dir =
     (Inl (IsADirectoryError ''o/t_io/tech.txt''),
      \<lparr>disk = [(''o'', Dir), (''o/t_io'', Dir), (''o/t_io/subs.txt'', File ''h\<newline>''),
               (''o/t_io/tech.txt'', Dir),
               (''o/t_io/report.md'',
                File ''# AutoScope Report\<newline>\<newline>## subs\<newline>h\<newline>\<newline>\<newline>## tech\<newline>'')],
       out = [], procs = []\<rparr>)
   \<and> generate_report env_utf8 ''o/t_io'' ''md'' state_binary =
     (Inl (UnicodeDecodeError ([CHR 0x27] @ ''utf-8'' @ [CHR 0x27] @ '' codec can'' @ [CHR 0x27]
                               @ ''t decode byte 0xff'')),
      \<lparr>disk = [(''o'', Dir), (''o/t_io'', Dir), (''o/t_io/subs.txt'', File [CHR ''h'', CHR 0xFF]),
               (''o/t_io/report.md'', File ''# AutoScope Report\<newline>\<newline>## subs\<newline>'')],
       out = [], procs = []\<rparr>)"
proof -
  have a: "generate_report env_ok ''o/t_io'' ''md'' state_tech_dir =
     (Inl (IsADirectoryError ''o/t_io/tech.txt''),
      \<lparr>disk = [(''o'', Dir), (''o/t_io'', Dir), (''o/t_io/subs.txt'', File ''h\<newline>''),
               (''o/t_io/tech.txt'', Dir),
               (''o/t_io/report.md'',
                File ''# AutoScope Report\<newline>\<newline>## subs\<newline>h\<newline>\<newline>\<newline>## tech\<newline>'')],
       out = [], procs = []\<rparr>)"
    by (simp add: generate_report_def state_tech_dir_def env_ok_def lib_defs Let_def)
  have b: "generate_report env_utf8 ''o/t_io'' ''md'' state_binary =
     (Inl (UnicodeDecodeError ([CHR 0x27] @ ''utf-8'' @ [CHR 0x27] @ '' codec can'' @ [CHR 0x27]
                               @ ''t decode byte 0xff'')),
      \<lparr>disk = [(''o'', Dir), (''o/t_io'', Dir), (''o/t_io/subs.txt'', File [CHR ''h'', CHR 0xFF]),
               (''o/t_io/report.md'', File ''# AutoScope Report\<newline>\<newline>## subs\<newline>'')],
       out = [], procs = []\<rparr>)"
    by (simp add: generate_report_def state_binary_def env_utf8_def env_ok_def lib_defs Let_def)
  from a b show ?thesis by simp
qed

section \<open>The endpoint discovery\<close>

text \<open>
  C8, at a working directory in which \<open>httpx.txt\<close> lists one script and
  \<open>endpoints.txt\<close> is a directory: two endpoints are extracted, and \<open>execute\<close> does
  not return success: \<open>open(outfile, 'w')\<close> raises \<open>IsADirectoryError\<close> outside any
  handler, and the exception leaves \<open>execute\<close>.
\<close>

theorem js_discovery_raises:
  "js_endpoints env_ok (module_in JsDiscoveryModule) state_endpoints_dir
     = [''/api?id='', ''/api?id='']
   \<and> JsDiscovery_execute env_ok (module_in JsDiscoveryModule) state_endpoints_dir =
       (Inl (IsADirectoryError ''o/t_io/endpoints.txt''),
        \<lparr>disk = [(''o'', Dir), (''o/t_io'', Dir),
                 (''o/t_io/httpx.txt'', File ''http://h/app.js\<newline>''),
                 (''o/t_io/endpoints.txt'', Dir)],
         out = [],
         procs = [(''curl -s http://h/app.js'', None)]\<rparr>)"
proof -
  have a: "js_endpoints env_ok (module_in JsDiscoveryModule) state_endpoints_dir
           = [''/api?id='', ''/api?id='']"
    by (simp add: js_endpoints_def lib_defs prog_defs run_defs state_endpoints_dir_def
        findall_example Let_def)
  have b: "JsDiscovery_execute env_ok (module_in JsDiscoveryModule) state_endpoints_dir =
       (Inl (IsADirectoryError ''o/t_io/endpoints.txt''),
        \<lparr>disk = [(''o'', Dir), (''o/t_io'', Dir),
                 (''o/t_io/httpx.txt'', File ''http://h/app.js\<newline>''),
                 (''o/t_io/endpoints.txt'', Dir)],
         out = [],
         procs = [(''curl -s http://h/app.js'', None)]\<rparr>)"
    by (simp add: lib_defs prog_defs run_defs state_endpoints_dir_def findall_example Let_def)
  from a b show ?thesis by simp
qed

text \<open>
  The endpoint discovery where its files can be read and written: when \<open>curl\<close> is
  installed, \<open>httpx.txt\<close> opens and decodes, and \<open>endpoints.txt\<close> can be opened for
  writing, \<open>execute\<close> returns success exactly when the loop has extracted at least one
  endpoint, prints their number, and \<open>endpoints.txt\<close> holds the extracted endpoints
  joined by newlines, each exactly once.
\<close>

theorem js_discovery_result:
  assumes tool: "which e ''curl''"
    and rd: "open_r (disk st) (path_join (output_dir m) ''httpx.txt'') = Inr b"
    and dec: "decode_error e b = None"
    and loop: "fetch_all e (js_urls (file_lines (universal_newlines b))) [] st = (endpoints, st2)"
    and wr: "open_w (disk st2) (path_join (output_dir m) ''endpoints.txt'')
               (str_join ''\<newline>'' (remdups endpoints)) = Inr fs3"
  shows "JsDiscovery_execute e m st =
           (Inr (endpoints \<noteq> []),
            py_print (''[SUCCESS] Found '' @ str_nat (length endpoints) @ '' potential endpoints'')
              (st2\<lparr>disk := fs3\<rparr>))
         \<and> js_endpoints e m st = endpoints
         \<and> (\<exists>xs. distinct xs \<and> set xs = set endpoints
                \<and> map_of fs3 (path_join (output_dir m) ''endpoints.txt'')
                    = Some (File (str_join ''\<newline>'' xs)))"
proof -
  have ex: "path_exists (disk st) (path_join (output_dir m) ''httpx.txt'')"
    using rd by (auto simp: open_r_def path_exists_def split: option.splits)
  have rl: "read_lines e b = (file_lines (universal_newlines b), None)"
    using dec by (simp add: read_lines_def)
  have a: "JsDiscovery_execute e m st =
           (Inr (endpoints \<noteq> []),
            py_print (''[SUCCESS] Found '' @ str_nat (length endpoints) @ '' potential endpoints'')
              (st2\<lparr>disk := fs3\<rparr>))"
    using tool ex by (simp add: JsDiscovery_execute_def check_tool_def rd rl loop wr del: append.simps)
  have b: "js_endpoints e m st = endpoints"
    using tool by (simp add: js_endpoints_def rd rl loop)
  have "fs3 = fs_put (path_join (output_dir m) ''endpoints.txt'')
                (File (str_join ''\<newline>'' (remdups endpoints))) (disk st2)"
    using wr by (auto simp: open_w_def split: option.splits node.splits if_splits)
  then have c: "map_of fs3 (path_join (output_dir m) ''endpoints.txt'')
             = Some (File (str_join ''\<newline>'' (remdups endpoints)))"
    by (simp add: map_of_fs_put)
  have "distinct (remdups endpoints) \<and> set (remdups endpoints) = set endpoints" by simp
  with a b c show ?thesis by blast
qed

theorem js_discovery_result_witness:
  "which env_ok ''curl''
   \<and> open_r (disk state_probed) (path_join (output_dir (module_in JsDiscoveryModule)) ''httpx.txt'')
       = Inr ''http://h/app.js\<newline>''
   \<and> decode_error env_ok ''http://h/app.js\<newline>'' = None
   \<and> fetch_all env_ok (js_urls (file_lines (universal_newlines ''http://h/app.js\<newline>''))) []
         state_probed
       = ([''/api?id='', ''/api?id=''], state_probed\<lparr>procs := [(''curl -s http://h/app.js'', None)]\<rparr>)
   \<and> open_w (disk state_probed) (path_join (output_dir (module_in JsDiscoveryModule)) ''endpoints.txt'')
         (str_join ''\<newline>'' (remdups [''/api?id='', ''/api?id='']))
       = Inr (disk state_probed @ [(''o/t_io/endpoints.txt'', File ''/api?id='')])
   \<and> JsDiscovery_execute env_ok (module_in JsDiscoveryModule) state_probed =
       (Inr True,
        \<lparr>disk = [(''o'', Dir), (''o/t_io'', Dir),
                 (''o/t_io/httpx.txt'', File ''http://h/app.js\<newline>''),
                 (''o/t_io/endpoints.txt'', File ''/api?id='')],
         out = [''[SUCCESS] Found 2 potential endpoints''],
         procs = [(''curl -s http://h/app.js'', None)]\<rparr>)"
proof -
  let ?m = "module_in JsDiscoveryModule"
  let ?st2 = "state_probed\<lparr>procs := [(''curl -s http://h/app.js'', None)]\<rparr>"
  have w: "which env_ok ''curl''" by (simp add: env_ok_def)
  have rd: "open_r (disk state_probed) (path_join (output_dir ?m) ''httpx.txt'')
            = Inr ''http://h/app.js\<newline>''"
    by (simp add: lib_defs module_in_def state_probed_def)
  have dec: "decode_error env_ok ''http://h/app.js\<newline>'' = None" by (simp add: env_ok_def)
  have loop: "fetch_all env_ok (js_urls (file_lines (universal_newlines ''http://h/app.js\<newline>''))) []
         state_probed = ([''/api?id='', ''/api?id=''], ?st2)"
    by (simp add: js_urls_def lib_defs env_ok_def state_probed_def findall_example)
  have wr: "open_w (disk ?st2) (path_join (output_dir ?m) ''endpoints.txt'')
         (str_join ''\<newline>'' (remdups [''/api?id='', ''/api?id='']))
       = Inr (disk state_probed @ [(''o/t_io/endpoints.txt'', File ''/api?id='')])"
    by (simp add: lib_defs module_in_def state_probed_def)
  have n: "str_nat (length [''/api?id='', ''/api?id='']) = ''2''" by (simp add: str_nat.simps)
  from js_discovery_result [OF w rd dec loop wr] w rd dec loop wr n show ?thesis
    by (simp add: py_print_def state_probed_def)
qed

section \<open>The pipeline\<close>

lemma run_modules_Cons:
  "run_modules e (m # ms) st =
     (case execute e m (py_print (start_notice m) st) of
        (Inl ex, st1) \<Rightarrow> (Inl ex, st1)
      | (Inr r, st1) \<Rightarrow> run_modules e ms st1)"
  by (simp add: start_notice_def)

text \<open>
  When no exception leaves \<open>execute\<close>, the loop of \<open>main\<close> runs every module of its
  list, in list order, each on the state the one before it left, whatever the modules
  returned.
\<close>

lemma run_modules_fold:
  "fst (run_modules e ms st) = Inr () \<Longrightarrow>
   run_modules e ms st = (Inr (), foldl (run_module e) st ms)"
proof (induction ms arbitrary: st)
  case Nil
  then show ?case by simp
next
  case (Cons m ms)
  let ?st0 = "py_print (start_notice m) st"
  obtain r st1 where x: "execute e m ?st0 = (r, st1)" by (cases "execute e m ?st0")
  then have rm: "run_module e st m = st1" by (simp add: run_module_def)
  show ?case
  proof (cases r)
    case (Inl ex)
    with x Cons.prems show ?thesis by (simp add: run_modules_Cons del: run_modules.simps)
  next
    case (Inr b)
    with x Cons.prems have "fst (run_modules e ms st1) = Inr ()"
      by (simp add: run_modules_Cons del: run_modules.simps)
    then have "run_modules e ms st1 = (Inr (), foldl (run_module e) st1 ms)" by (rule Cons.IH)
    with x Inr rm show ?thesis by (simp add: run_modules_Cons del: run_modules.simps)
  qed
qed

text \<open>
  C4, at a fresh working directory that holds a directory named \<open>endpoints.txt\<close>, with
  every tool installed: the endpoint discovery raises \<open>IsADirectoryError\<close> when it opens
  its output file, the exception leaves \<open>main\<close>, the three modules after it are not
  started, no report is written and the banner is not printed.
\<close>

theorem pipeline_stopped_by_exception:
  "main env_ok args_default state_blocked =
     (Inl (IsADirectoryError ''o/t_io/endpoints.txt''),
      \<lparr>disk = [(''o'', Dir), (''o/t_io'', Dir), (''o/t_io/endpoints.txt'', Dir),
               (''o/t_io/subs.txt'', File ''http://h/app.js\<newline>http://h/ [nginx]\<newline>''),
               (''o/t_io/ports.txt'', File ''http://h/app.js\<newline>http://h/ [nginx]\<newline>''),
               (''o/t_io/httpx.txt'', File ''http://h/app.js\<newline>http://h/ [nginx]\<newline>''),
               (''o/t_io/tech.txt'', File ''[nginx]\<newline>'')],
       out = [''[INFO] Executing module: subdomain'',
              ''[SUCCESS] Completed subdomain in 0.01s. Output: o/t_io/subs.txt'',
              ''[INFO] Executing module: ports'',
              ''[SUCCESS] Completed ports in 0.01s. Output: o/t_io/ports.txt'',
              ''[INFO] Executing module: http_probe'',
              ''[SUCCESS] Completed http_probe in 0.01s. Output: o/t_io/httpx.txt'',
              ''[SUCCESS] Tech detection saved to o/t_io/tech.txt'',
              ''[INFO] Executing module: js_discovery''],
       procs = [(''subfinder -d t.io -silent -o o/t_io/subs.txt'', Some 300),
                (''naabu -host t.io -p 1-65535 -silent -o o/t_io/ports.txt'', Some 300),
                (''httpx -l o/t_io/subs.txt -silent -o o/t_io/httpx.txt -tech-detect'', Some 300),
                (''curl -s http://h/app.js'', None)]\<rparr>)"
  by (simp add: lib_defs prog_defs run_defs state_blocked_def findall_example Let_def)

text \<open>
  The pipeline where no exception is raised: when \<open>--fast\<close> and \<open>--deep\<close> are not both
  given, the constructors return, no exception leaves a module's \<open>execute\<close> and
  \<open>generate_report\<close> returns, \<open>main\<close> has run every selected module in list order,
  whatever the modules returned, then written the report, and the success banner is the
  last line it prints.
\<close>

theorem pipeline_returned_failures:
  assumes nb: "\<not> (arg_fast a \<and> arg_deep a)"
    and init: "init_modules all_classes (arg_target a)
                 (path_join (arg_output a) (replace_dots (arg_target a))) (make_config a) st
               = (Inr ms, st1)"
    and noexn: "fst (run_modules e (select_modules a ms) st1) = Inr ()"
    and report: "generate_report e (path_join (arg_output a) (replace_dots (arg_target a)))
                   (format_str (arg_report a)) (foldl (run_module e) st1 (select_modules a ms))
                 = (Inr (), st3)"
  shows "main e a st = (Inr (), st3\<lparr>out := out st3 @ [''[SUCCESS] AutoScope scan completed!'']\<rparr>)"
proof -
  from nb have nb': "(arg_fast a \<and> arg_deep a) = False" by simp
  have rm: "run_modules e (select_modules a ms) st1
            = (Inr (), foldl (run_module e) st1 (select_modules a ms))"
    using noexn by (rule run_modules_fold)
  show ?thesis
    by (simp add: main_def Let_def nb' init rm report py_print_def)
qed

text \<open>
  A run in which every command exits with status 1: all seven modules return failure, all
  seven are run in order, the report is written and the banner is printed last.
\<close>

theorem pipeline_returned_failures_witness:
  "\<not> (arg_fast args_default \<and> arg_deep args_default)
   \<and> init_modules all_classes (arg_target args_default)
         (path_join (arg_output args_default) (replace_dots (arg_target args_default)))
         (make_config args_default) state_empty
       = (Inr (map module_in all_classes), state_fresh)
   \<and> fst (run_modules env_fail (select_modules args_default (map module_in all_classes)) state_fresh)
       = Inr ()
   \<and> fst (generate_report env_fail
             (path_join (arg_output args_default) (replace_dots (arg_target args_default)))
             (format_str (arg_report args_default))
             (foldl (run_module env_fail) state_fresh
                (select_modules args_default (map module_in all_classes))))
       = Inr ()
   \<and> main env_fail args_default state_empty =
       (Inr (),
        \<lparr>disk = [(''o'', Dir), (''o/t_io'', Dir), (''o/t_io/screenshots'', Dir),
                 (''o/t_io/report.md'', File ''# AutoScope Report\<newline>\<newline>'')],
         out = [''[INFO] Executing module: subdomain'',
                ''[ERROR] in subdomain: no route to host'',
                ''[INFO] Executing module: ports'',
                ''[ERROR] in ports: no route to host'',
                ''[INFO] Executing module: http_probe'',
                ''[INFO] Skipping HTTP probe: subs.txt not found'',
                ''[INFO] Executing module: js_discovery'',
                ''[INFO] Skipping JS discovery: httpx.txt not found'',
                ''[INFO] Executing module: dir_bruteforce'',
                ''[ERROR] Wordlist not found at '' @ wordlist @ ''. Download one and update the path.'',
                ''[INFO] Executing module: param_discovery'',
                ''[ERROR] in param_discovery: no route to host'',
                ''[INFO] Executing module: screenshot'',
                ''[INFO] Skipping screenshots: httpx.txt not found'',
                ''[INFO] Report generated: o/t_io/report.md'',
                ''[SUCCESS] AutoScope scan completed!''],
         procs = [(''subfinder -d t.io -silent -o o/t_io/subs.txt'', Some 300),
                  (''naabu -host t.io -p 1-65535 -silent -o o/t_io/ports.txt'', Some 300),
                  (''arjun -u https://t.io --stable -oT o/t_io/params.txt'', Some 300)]\<rparr>)"
proof -
  let ?sel = "select_modules args_default (map module_in all_classes)"
  let ?dir = "path_join (arg_output args_default) (replace_dots (arg_target args_default))"
  have nb: "\<not> (arg_fast args_default \<and> arg_deep args_default)" by (simp add: args_default_def)
  have init: "init_modules all_classes (arg_target args_default) ?dir
                (make_config args_default) state_empty
              = (Inr (map module_in all_classes), state_fresh)"
    by (simp add: lib_defs init_module_def all_classes_def args_default_def state_empty_def
        state_fresh_def module_in_def)
  have run: "run_modules env_fail ?sel state_fresh =
       (Inr (),
        \<lparr>disk = [(''o'', Dir), (''o/t_io'', Dir), (''o/t_io/screenshots'', Dir)],
         out = [''[INFO] Executing module: subdomain'',
                ''[ERROR] in subdomain: no route to host'',
                ''[INFO] Executing module: ports'',
                ''[ERROR] in ports: no route to host'',
                ''[INFO] Executing module: http_probe'',
                ''[INFO] Skipping HTTP probe: subs.txt not found'',
                ''[INFO] Executing module: js_discovery'',
                ''[INFO] Skipping JS discovery: httpx.txt not found'',
                ''[INFO] Executing module: dir_bruteforce'',
                ''[ERROR] Wordlist not found at '' @ wordlist @ ''. Download one and update the path.'',
                ''[INFO] Executing module: param_discovery'',
                ''[ERROR] in param_discovery: no route to host'',
                ''[INFO] Executing module: screenshot'',
                ''[INFO] Skipping screenshots: httpx.txt not found''],
         procs = [(''subfinder -d t.io -silent -o o/t_io/subs.txt'', Some 300),
                  (''naabu -host t.io -p 1-65535 -silent -o o/t_io/ports.txt'', Some 300),
                  (''arjun -u https://t.io --stable -oT o/t_io/params.txt'', Some 300)]\<rparr>)"
    by (simp add: lib_defs prog_defs run_defs state_fresh_def Let_def)
  have noexn: "fst (run_modules env_fail ?sel state_fresh) = Inr ()" by (simp only: run fst_conv)
  have fold: "foldl (run_module env_fail) state_fresh ?sel = snd (run_modules env_fail ?sel state_fresh)"
    using run_modules_fold [OF noexn] by simp
  have rep: "generate_report env_fail ?dir (format_str (arg_report args_default))
               (foldl (run_module env_fail) state_fresh ?sel) =
       (Inr (),
        \<lparr>disk = [(''o'', Dir), (''o/t_io'', Dir), (''o/t_io/screenshots'', Dir),
                 (''o/t_io/report.md'', File ''# AutoScope Report\<newline>\<newline>'')],
         out = [''[INFO] Executing module: subdomain'',
                ''[ERROR] in subdomain: no route to host'',
                ''[INFO] Executing module: ports'',
                ''[ERROR] in ports: no route to host'',
                ''[INFO] Executing module: http_probe'',
                ''[INFO] Skipping HTTP probe: subs.txt not found'',
                ''[INFO] Executing module: js_discovery'',
                ''[INFO] Skipping JS discovery: httpx.txt not found'',
                ''[INFO] Executing module: dir_bruteforce'',
                ''[ERROR] Wordlist not found at '' @ wordlist @ ''. Download one and update the path.'',
                ''[INFO] Executing module: param_discovery'',
                ''[ERROR] in param_discovery: no route to host'',
                ''[INFO] Executing module: screenshot'',
                ''[INFO] Skipping screenshots: httpx.txt not found'',
                ''[INFO] Report generated: o/t_io/report.md''],
         procs = [(''subfinder -d t.io -silent -o o/t_io/subs.txt'', Some 300),
                  (''naabu -host t.io -p 1-65535 -silent -o o/t_io/ports.txt'', Some 300),
                  (''arjun -u https://t.io --stable -oT o/t_io/params.txt'', Some 300)]\<rparr>)"
    unfolding fold run snd_conv
    by (simp add: generate_report_def lib_defs args_default_def Let_def env_fail_def)
  have rep1: "fst (generate_report env_fail ?dir (format_str (arg_report args_default))
               (foldl (run_module env_fail) state_fresh ?sel)) = Inr ()"
    by (simp only: rep fst_conv)
  from pipeline_returned_failures [OF nb init noexn rep] nb init noexn rep1 show ?thesis
    by simp
qed

text \<open>
  The example of the specification: with \<open>--only-subdomains\<close> and the target
  \<open>example.com\<close> one module is started, one output file is written, and the report holds
  the one section.
\<close>

theorem only_subdomains_example:
  "main env_ok (args_default\<lparr>arg_target := ''example.com'', arg_only_subdomains := True\<rparr>) state_empty =
     (Inr (),
      \<lparr>disk = [(''o'', Dir), (''o/example_com'', Dir),
               (''o/example_com/subs.txt'', File ''http://h/app.js\<newline>http://h/ [nginx]\<newline>''),
               (''o/example_com/report.md'',
                File ''# AutoScope Report\<newline>\<newline>## subs\<newline>http://h/app.js\<newline>http://h/ [nginx]\<newline>\<newline>\<newline>'')],
       out = [''[INFO] Executing module: subdomain'',
              ''[SUCCESS] Completed subdomain in 0.01s. Output: o/example_com/subs.txt'',
              ''[INFO] Report generated: o/example_com/report.md'',
              ''[SUCCESS] AutoScope scan completed!''],
       procs = [(''subfinder -d example.com -silent -o o/example_com/subs.txt'', Some 300)]\<rparr>)"
  by (simp add: lib_defs prog_defs run_defs Let_def)

end
